theory Spec2Isabelle
  imports Main "HOL-Library.AList" "HOL-Library.Sublist" "HOL-Library.Char_ord"
    "HOL-Library.List_Lexorder"
begin

section \<open>Data model of the indexer (src/src/indexer.ts)\<close>

text \<open>
  Block heights are JavaScript \<open>bigint\<close>s, modelled as \<open>int\<close>. \<open>ToBlock\<close> is the
  union \<open>bigint | "latest"\<close>. Hex strings and addresses are strings. An ABI is an
  opaque value for the indexer core (it is only stored and handed to the codec), here
  the list of the names it declares.
\<close>

type_synonym Hex = string
type_synonym Abi = "string list"

datatype ToBlock = Latest | Height int

text \<open>
  Everything that the source throws or receives as a rejection. \<open>Error\<close> is the plain
  JavaScript \<open>Error\<close> with its message. \<open>JsonRpcError\<close> keeps the optional
  \<open>error\<close> member of the response (message and code), the only part of it that the
  code inspects. \<open>JsonRpcRangeTooWideError\<close> wraps its cause.
\<close>

datatype error =
    Error string
  | JsonRpcError "(string \<times> int) option"
  | JsonRpcRangeTooWideError error

text \<open>The type \<open>Subscription\<close> as the object literal of \<open>subscribeToContract\<close> builds it.\<close>

record Subscription =
  id_sub :: string
  abi :: Abi
  contractName :: string
  contractAddress :: string
  fromBlock :: int
  toBlock :: ToBlock
  indexedToBlock :: int
  fetchedToBlock :: int
  indexedToLogIndex :: int

text \<open>
  The live subscription map is a JavaScript \<open>Map\<close>, which keeps insertion order:
  an association list, written with \<open>AList.update\<close> (\<open>Map.set\<close>: replace in
  place or append) and read with \<open>map_of\<close> (\<open>Map.get\<close>).
\<close>

type_synonym Subscriptions = "(string \<times> Subscription) list"

text \<open>The options object of \<open>subscribeToContract\<close>; an omitted option is \<open>None\<close>.\<close>

record SubscribeOptions =
  contract :: string
  address :: string
  indexedToBlock_opt :: "int option"
  fromBlock_opt :: "int option"
  fromLogIndex_opt :: "int option"
  toBlock_opt :: "ToBlock option"
  id_opt :: "string option"

text \<open>
  A subscription as the store returns it from \<open>all()\<close>, with the fields that \<open>init\<close>
  reads.
\<close>

record StoredSubscription =
  stored_id :: string
  stored_contractName :: string
  stored_contractAddress :: string
  stored_fromBlock :: int
  stored_toBlock :: ToBlock
  stored_indexedToBlock :: int
  stored_indexedToLogIndex :: int

text \<open>
  A pending event of the queue carries the position of its log and the subscription it
  was fetched for.
\<close>

record PendingEvent =
  blockNumber :: int
  logIndex :: int
  subscriptionId :: string

text \<open>
  The configuration of \<open>createIndexer\<close>, as far as the core reads it: the ABI registry
  \<open>contracts\<close>, the optional polling interval, and whether a subscription store is
  configured. \<open>getAddress\<close> is viem's checksum function, which throws on a string
  that is not an address; it is a parameter of the model.
\<close>

record Config =
  contracts :: "string \<rightharpoonup> Abi"
  pollingIntervalMs :: "nat option"
  hasSubscriptionStore :: bool
  getAddress :: "string \<Rightarrow> error + string"

section \<open>The state of one indexer\<close>

text \<open>
  The two pairs of callbacks that the source installs in the running state: \<open>watch\<close>
  installs an empty \<open>onStop\<close> and an \<open>onError\<close> that emits \<open>error\<close>;
  \<open>indexToBlock\<close> installs an \<open>onStop\<close> that resolves its completion promise and an
  \<open>onError\<close> that rejects it and calls \<open>stop\<close>.
\<close>

datatype Callbacks = WatchCallbacks | IndexToBlockCallbacks

datatype IndexerState =
    Initial
  | Stopped
  | Running ToBlock Callbacks

text \<open>
  What the indexer does to the outside world, in the order of the source: the signals of
  the event emitter, the timer calls, the invocation of the running state's \<open>onStop\<close>,
  the settling of the completion promise of \<open>indexToBlock\<close>, and the writes to the
  subscription store.
\<close>

datatype Signal =
    StartedSignal
  | StoppedSignal
  | ErrorSignal error
  | ProgressSignal int int nat
  | EventSignal PendingEvent

datatype Effect =
    Emit Signal
  | SetTimeout nat
  | ClearTimeout
  | OnStop Callbacks
  | Resolve
  | Reject error
  | StoreSave Subscriptions

record Indexer =
  state :: IndexerState
  subscriptions :: Subscriptions
  eventQueue :: "PendingEvent list"
  effects :: "Effect list"

definition createIndexer :: Indexer where
  "createIndexer = \<lparr> state = Initial, subscriptions = [], eventQueue = [], effects = [] \<rparr>"

definition eventPollDelayMs :: "Config \<Rightarrow> nat" where
  "eventPollDelayMs cfg = (case pollingIntervalMs cfg of None \<Rightarrow> 1000 | Some d \<Rightarrow> d)"

definition performs :: "Effect list \<Rightarrow> Indexer \<Rightarrow> Indexer" where
  "performs es ix = ix \<lparr> effects := effects ix @ es \<rparr>"

section \<open>subscribeToContract and init\<close>

text \<open>
  \<open>subscribeToContract\<close> throws before it changes anything (an invalid address, an
  unknown contract name), so it returns either the error or the new map.
\<close>

definition subscribeToContract ::
  "Config \<Rightarrow> SubscribeOptions \<Rightarrow> Subscriptions \<Rightarrow> error + Subscriptions" where
  "subscribeToContract cfg subscribeOptions subs =
     (case getAddress cfg (address subscribeOptions) of
        Inl e \<Rightarrow> Inl e
      | Inr addr \<Rightarrow>
          (case contracts cfg (contract subscribeOptions) of
             None \<Rightarrow> Inl (Error (''Contract '' @ contract subscribeOptions @ '' not found''))
           | Some c \<Rightarrow>
               (let ident = addr;
                    fromBlk = (case fromBlock_opt subscribeOptions of None \<Rightarrow> 0 | Some b \<Rightarrow> b);
                    subscription = \<lparr>
                      id_sub = ident,
                      abi = c,
                      contractName = contract subscribeOptions,
                      contractAddress = addr,
                      fromBlock = fromBlk,
                      toBlock = (case toBlock_opt subscribeOptions of
                                   None \<Rightarrow> Latest | Some t \<Rightarrow> t),
                      indexedToBlock = (case indexedToBlock_opt subscribeOptions of
                                          None \<Rightarrow> fromBlk - 1 | Some b \<Rightarrow> b),
                      fetchedToBlock = - 1,
                      indexedToLogIndex = 0 \<rparr>
                in Inr (AList.update ident subscription subs))))"

text \<open>The options that \<open>init\<close> passes for one stored subscription.\<close>

definition storedOptions :: "StoredSubscription \<Rightarrow> SubscribeOptions" where
  "storedOptions subscription = \<lparr>
     contract = stored_contractName subscription,
     address = stored_contractAddress subscription,
     indexedToBlock_opt = Some (stored_indexedToBlock subscription),
     fromBlock_opt = Some (stored_fromBlock subscription),
     fromLogIndex_opt = Some (stored_indexedToLogIndex subscription),
     toBlock_opt = Some (stored_toBlock subscription),
     id_opt = Some (stored_id subscription) \<rparr>"

text \<open>
  The loop of \<open>init\<close> over the stored subscriptions. The map is changed in place, so
  the subscriptions inserted before a throw stay: the result is the map and the error,
  if any.
\<close>

fun loadSubscriptions ::
  "Config \<Rightarrow> StoredSubscription list \<Rightarrow> Subscriptions \<Rightarrow> Subscriptions \<times> error option" where
  "loadSubscriptions cfg [] subs = (subs, None)"
| "loadSubscriptions cfg (subscription # rest) subs =
     (case subscribeToContract cfg (storedOptions subscription) subs of
        Inl e \<Rightarrow> (subs, Some e)
      | Inr subs' \<Rightarrow> loadSubscriptions cfg rest subs')"

text \<open>
  \<open>init\<close>: \<open>storeAll\<close> is the outcome of \<open>config.subscriptionStore.all()\<close>, read only
  when a store is configured.
\<close>

definition init ::
  "Config \<Rightarrow> (error + StoredSubscription list) \<Rightarrow> Subscriptions \<Rightarrow> Subscriptions \<times> error option" where
  "init cfg storeAll subs =
     (if hasSubscriptionStore cfg then
        (case storeAll of
           Inl e \<Rightarrow> (subs, Some e)
         | Inr storedSubscriptions \<Rightarrow> loadSubscriptions cfg storedSubscriptions subs)
      else (subs, None))"

section \<open>stop, the error callbacks and the timer\<close>

text \<open>
  \<open>stop\<close> is an \<open>async\<close> function without an \<open>await\<close>: its body runs at the call.
  The result is the indexer after the call and the error of the rejected promise, if
  any. The invocation of \<open>state.onStop\<close> is recorded as \<open>OnStop\<close>, followed by what
  the callback does: nothing for \<open>watch\<close>, \<open>resolve()\<close> for \<open>indexToBlock\<close>.
\<close>

definition onStop :: "Callbacks \<Rightarrow> Effect list" where
  "onStop cb = (case cb of WatchCallbacks \<Rightarrow> [] | IndexToBlockCallbacks \<Rightarrow> [Resolve])"

definition stop :: "Indexer \<Rightarrow> Indexer \<times> error option" where
  "stop ix =
     (case state ix of
        Running tb cb \<Rightarrow>
          ((performs ([ClearTimeout, Emit StoppedSignal, OnStop cb] @ onStop cb) ix)
             \<lparr> state := Stopped \<rparr>, None)
      | _ \<Rightarrow> (ix, Some (Error ''Indexer is not running'')))"

text \<open>
  \<open>state.onError\<close>: for \<open>watch\<close> it emits \<open>error\<close>; for \<open>indexToBlock\<close> it rejects
  the completion promise and calls \<open>stop()\<close> without awaiting it.
\<close>

definition onError :: "Callbacks \<Rightarrow> error \<Rightarrow> Indexer \<Rightarrow> Indexer" where
  "onError cb err ix =
     (case cb of
        WatchCallbacks \<Rightarrow> performs [Emit (ErrorSignal err)] ix
      | IndexToBlockCallbacks \<Rightarrow> fst (stop (performs [Reject err] ix)))"

definition scheduleNextPoll :: "nat \<Rightarrow> Indexer \<Rightarrow> Indexer" where
  "scheduleNextPoll delay ix =
     (case state ix of
        Running tb cb \<Rightarrow> performs [SetTimeout delay] ix
      | _ \<Rightarrow> ix)"

section \<open>Collaborators of the poll loop that are not part of indexer.ts\<close>

text \<open>
  Modelled from the spec: \<open>updateSubscription\<close> of the module \<open>@/subscriptions\<close>,
  which is not among the sources. The spec calls it the core's update primitive: the
  given fields of the subscription stored under the id are overwritten. The partial
  object is the function that overwrites those fields. For an id that is not in the map
  the model leaves the map as it is; \<open>poll\<close> only passes ids that it has read from
  the map.
\<close>

definition updateSubscription ::
  "Subscriptions \<Rightarrow> string \<Rightarrow> (Subscription \<Rightarrow> Subscription) \<Rightarrow> Subscriptions" where
  "updateSubscription subs ident upd = AList.map_entry ident upd subs"

text \<open>The loop \<open>for (const id of subscriptionIds) updateSubscription(subscriptions, id, ...)\<close>.\<close>

definition updateEach ::
  "string list \<Rightarrow> (Subscription \<Rightarrow> Subscription) \<Rightarrow> Subscriptions \<Rightarrow> Subscriptions" where
  "updateEach subscriptionIds upd subs =
     fold (\<lambda>ident m. updateSubscription m ident upd) subscriptionIds subs"

text \<open>
  Modelled from the spec: the event queue of \<open>@/eventQueue\<close>, which is not among the
  sources. It holds the pending events ordered by block number, then log index, then
  subscription id, all ascending; \<open>queue\<close> inserts, \<open>size\<close> counts. The model keeps
  the list sorted, so \<open>peek\<close> is its head.
\<close>

definition precedes :: "PendingEvent \<Rightarrow> PendingEvent \<Rightarrow> bool" where
  "precedes a b =
     (blockNumber a < blockNumber b \<or>
      (blockNumber a = blockNumber b \<and>
        (logIndex a < logIndex b \<or>
         (logIndex a = logIndex b \<and> subscriptionId a \<le> subscriptionId b))))"

fun queue_event :: "PendingEvent \<Rightarrow> PendingEvent list \<Rightarrow> PendingEvent list" where
  "queue_event e [] = [e]"
| "queue_event e (x # xs) = (if precedes x e then x # queue_event e xs else e # x # xs)"

text \<open>
  What \<open>processEvents\<close> hands back to \<open>poll\<close>: the object it returns, or the error it
  throws, together with what it has done by then to the subscription map and the queue,
  and the events it has dispatched to the handlers.
\<close>

record ProcessResult =
  res_indexedToBlock :: int
  res_indexedToLogIndex :: int
  hasNewSubscriptions :: bool

record ProcessOutcome =
  po_subscriptions :: Subscriptions
  po_eventQueue :: "PendingEvent list"
  po_dispatched :: "PendingEvent list"
  po_result :: "error + ProcessResult"

text \<open>
  The outside world during one poll tick. \<open>getLastBlockNumber\<close> is the answer of the
  RPC client. \<open>getSubscriptionEvents\<close> (the fetch planner) and \<open>processEvents\<close> (the
  event processor) belong to modules that are not among the sources; \<open>poll\<close> is
  verified for every planner and processor. The planner yields the events it passes to
  \<open>pushEvent\<close> and the error it throws, if any. \<open>saveSubscriptionsToStore\<close> is the
  outcome of the write to the subscription store.
\<close>

record PollEnv =
  getLastBlockNumber :: "error + int"
  getSubscriptionEvents :: "int \<Rightarrow> Subscriptions \<Rightarrow> PendingEvent list \<times> error option"
  processEvents :: "int \<Rightarrow> Subscriptions \<Rightarrow> PendingEvent list \<Rightarrow> ProcessOutcome"
  saveSubscriptionsToStore :: "Subscriptions \<Rightarrow> error option"

section \<open>The poll tick\<close>

text \<open>
  How the \<open>try\<close> block of \<open>poll\<close> ends: by the \<open>return\<close> of the
  \<open>hasNewSubscriptions\<close> branch, by the \<open>return\<close> after \<open>stop()\<close> at the final target,
  by running to its end, or by a throw. The first three carry the target block of the
  tick.
\<close>

datatype Completion =
    ReturnedNewSubscriptions int
  | ReturnedAtTarget int
  | FellThrough int
  | Threw error

definition resolveTarget :: "PollEnv \<Rightarrow> ToBlock \<Rightarrow> error + int" where
  "resolveTarget env stateTarget =
     (case stateTarget of Latest \<Rightarrow> getLastBlockNumber env | Height n \<Rightarrow> Inr n)"

definition persist :: "Config \<Rightarrow> PollEnv \<Rightarrow> Indexer \<Rightarrow> Indexer \<times> error option" where
  "persist cfg env ix =
     (if hasSubscriptionStore cfg
      then (performs [StoreSave (subscriptions ix)] ix,
            saveSubscriptionsToStore env (subscriptions ix))
      else (ix, None))"

text \<open>The indexer when the planner has returned: the pushed events are on the queue.\<close>

definition planned :: "PollEnv \<Rightarrow> int \<Rightarrow> Indexer \<Rightarrow> Indexer" where
  "planned env targetBlock ix =
     ix \<lparr> eventQueue :=
            fold queue_event (fst (getSubscriptionEvents env targetBlock (subscriptions ix)))
              (eventQueue ix) \<rparr>"

text \<open>The first loop over \<open>subscriptionIds\<close>: \<open>fetchedToBlock\<close> becomes the target.\<close>

definition toFetched :: "int \<Rightarrow> Subscription \<Rightarrow> Subscription" where
  "toFetched targetBlock s = s \<lparr> fetchedToBlock := targetBlock \<rparr>"

definition fetched :: "int \<Rightarrow> Indexer \<Rightarrow> Indexer" where
  "fetched targetBlock ix =
     ix \<lparr> subscriptions :=
            updateEach (map fst (subscriptions ix)) (toFetched targetBlock) (subscriptions ix) \<rparr>"

text \<open>The call of \<open>processEvents\<close> in this tick.\<close>

definition processed :: "PollEnv \<Rightarrow> int \<Rightarrow> Indexer \<Rightarrow> ProcessOutcome" where
  "processed env targetBlock ix =
     (let ix2 = fetched targetBlock (planned env targetBlock ix)
      in processEvents env targetBlock (subscriptions ix2) (eventQueue ix2))"

text \<open>
  The indexer when \<open>processEvents\<close> has returned or thrown: the map and the queue are
  as the processor left them, and the dispatched events have gone to the handlers.
\<close>

definition afterDispatch :: "PollEnv \<Rightarrow> int \<Rightarrow> Indexer \<Rightarrow> Indexer" where
  "afterDispatch env targetBlock ix =
     (let out = processed env targetBlock ix
      in performs (map (\<lambda>ev. Emit (EventSignal ev)) (po_dispatched out))
           ((planned env targetBlock ix)
              \<lparr> subscriptions := po_subscriptions out, eventQueue := po_eventQueue out \<rparr>))"

text \<open>
  The two updates that \<open>poll\<close> makes after the processor: the cursors of the returned
  watermark, and the cursors \<open>(targetBlock, 0)\<close>.
\<close>

definition toWatermark :: "ProcessResult \<Rightarrow> Subscription \<Rightarrow> Subscription" where
  "toWatermark r s =
     s \<lparr> indexedToBlock := res_indexedToBlock r, indexedToLogIndex := res_indexedToLogIndex r \<rparr>"

definition toTarget :: "int \<Rightarrow> Subscription \<Rightarrow> Subscription" where
  "toTarget targetBlock s = s \<lparr> indexedToBlock := targetBlock, indexedToLogIndex := 0 \<rparr>"

text \<open>
  The rest of the \<open>try\<close> block once \<open>processEvents\<close> has returned \<open>r\<close>. The tick is
  taken as one step: no call of the public API runs between its suspension points, so
  \<open>state.targetBlock\<close> is still the \<open>stateTarget\<close> read at its start.
\<close>

definition afterProcess ::
  "Config \<Rightarrow> PollEnv \<Rightarrow> ToBlock \<Rightarrow> int \<Rightarrow> string list \<Rightarrow> ProcessResult \<Rightarrow> Indexer
     \<Rightarrow> Indexer \<times> Completion" where
  "afterProcess cfg env stateTarget targetBlock subscriptionIds r ix =
     (let ix4 = ix \<lparr> subscriptions :=
                  updateEach subscriptionIds (toWatermark r) (subscriptions ix) \<rparr>
      in if hasNewSubscriptions r then
           (case persist cfg env ix4 of
              (ix5, Some e) \<Rightarrow> (ix5, Threw e)
            | (ix5, None) \<Rightarrow> (scheduleNextPoll 0 ix5, ReturnedNewSubscriptions targetBlock))
         else
           (let ix5 = ix4 \<lparr> subscriptions :=
                        updateEach subscriptionIds (toTarget targetBlock) (subscriptions ix4) \<rparr>;
                ix6 = performs
                        [Emit (ProgressSignal (res_indexedToBlock r) targetBlock
                                 (length (eventQueue ix5)))] ix5
            in case persist cfg env ix6 of
                 (ix7, Some e) \<Rightarrow> (ix7, Threw e)
               | (ix7, None) \<Rightarrow>
                   if stateTarget \<noteq> Latest \<and> Height targetBlock = stateTarget
                   then (fst (stop ix7), ReturnedAtTarget targetBlock)
                   else (ix7, FellThrough targetBlock)))"

definition pollBody :: "Config \<Rightarrow> PollEnv \<Rightarrow> ToBlock \<Rightarrow> Indexer \<Rightarrow> Indexer \<times> Completion" where
  "pollBody cfg env stateTarget ix =
     (case resolveTarget env stateTarget of
        Inl e \<Rightarrow> (ix, Threw e)
      | Inr targetBlock \<Rightarrow>
          (let ix1 = planned env targetBlock ix
           in case snd (getSubscriptionEvents env targetBlock (subscriptions ix)) of
                Some e \<Rightarrow> (ix1, Threw e)
              | None \<Rightarrow>
                  (let subscriptionIds = map fst (subscriptions ix1);
                       ix3 = afterDispatch env targetBlock ix
                   in case po_result (processed env targetBlock ix) of
                        Inl e \<Rightarrow> (ix3, Threw e)
                      | Inr r \<Rightarrow>
                          afterProcess cfg env stateTarget targetBlock subscriptionIds r ix3)))"

definition poll :: "Config \<Rightarrow> PollEnv \<Rightarrow> Indexer \<Rightarrow> Indexer" where
  "poll cfg env ix =
     (case state ix of
        Running stateTarget cb \<Rightarrow>
          (case pollBody cfg env stateTarget ix of
             (ix', Threw e) \<Rightarrow> scheduleNextPoll (eventPollDelayMs cfg) (onError cb e ix')
           | (ix', FellThrough t) \<Rightarrow> scheduleNextPoll (eventPollDelayMs cfg) ix'
           | (ix', _) \<Rightarrow> ix')
      | _ \<Rightarrow> ix)"

text \<open>What one poll tick adds to the record of effects.\<close>

definition tickEffects :: "Config \<Rightarrow> PollEnv \<Rightarrow> Indexer \<Rightarrow> Effect list" where
  "tickEffects cfg env ix = drop (length (effects ix)) (effects (poll cfg env ix))"

section \<open>watch and indexToBlock\<close>

text \<open>
  \<open>watch\<close> is a plain function: its result is the indexer after the promise chain
  has run and the error that the call itself throws, if any. The chain is taken as one
  step. \<open>storeAll\<close> is the outcome of \<open>config.subscriptionStore.all()\<close>.
\<close>

definition watch ::
  "Config \<Rightarrow> (error + StoredSubscription list) \<Rightarrow> Indexer \<Rightarrow> Indexer \<times> error option" where
  "watch cfg storeAll ix =
     (let initPromise = (if state ix = Initial then init cfg storeAll (subscriptions ix)
                         else (subscriptions ix, None));
          ix1 = ix \<lparr> subscriptions := fst initPromise \<rparr>
      in (case snd initPromise of
            Some e \<Rightarrow> performs [Emit (ErrorSignal e)] ix1
          | None \<Rightarrow>
              (case state ix1 of
                 Running tb cb \<Rightarrow>
                   performs [Emit (ErrorSignal (Error ''Indexer is already running''))] ix1
               | _ \<Rightarrow>
                   performs [SetTimeout 0, Emit StartedSignal]
                     (ix1 \<lparr> state := Running Latest WatchCallbacks \<rparr>)),
          None))"

text \<open>
  \<open>indexToBlock\<close> is \<open>async\<close>: the error is the rejection of the promise it returns,
  at the call. Otherwise the promise stays pending until \<open>onStop\<close> resolves it or
  \<open>onError\<close> rejects it. \<open>lastBlock\<close> is the answer of \<open>getLastBlockNumber\<close>.
\<close>

definition indexToBlock ::
  "Config \<Rightarrow> (error + StoredSubscription list) \<Rightarrow> (error + int) \<Rightarrow> ToBlock \<Rightarrow> Indexer
     \<Rightarrow> Indexer \<times> error option" where
  "indexToBlock cfg storeAll lastBlock target ix =
     (let initResult = (if state ix = Initial then init cfg storeAll (subscriptions ix)
                        else (subscriptions ix, None));
          ix1 = ix \<lparr> subscriptions := fst initResult \<rparr>
      in case snd initResult of
           Some e \<Rightarrow> (ix1, Some e)
         | None \<Rightarrow>
             (case state ix1 of
                Running tb cb \<Rightarrow> (ix1, Some (Error ''Indexer is already running''))
              | _ \<Rightarrow>
                  (case (case target of Latest \<Rightarrow> lastBlock | Height n \<Rightarrow> Inr n) of
                     Inl e \<Rightarrow> (ix1, Some e)
                   | Inr targetBlock \<Rightarrow>
                       (performs [SetTimeout 0, Emit StartedSignal]
                          (ix1 \<lparr> state := Running (Height targetBlock) IndexToBlockCallbacks \<rparr>),
                        None))))"

section \<open>readContract\<close>

text \<open>
  The key of a cached contract read: chain id, address, function name, block number
  and call data.
\<close>

type_synonym ContractReadKey = "nat \<times> Hex \<times> string \<times> int \<times> Hex"

text \<open>
  The interface \<open>Cache\<close>, as far as \<open>readContract\<close> uses it. \<open>getContractRead\<close>
  answers \<open>null\<close> (\<open>None\<close>) or the cached bytes, or fails; \<open>insertContractRead\<close> may
  fail.
\<close>

record Cache =
  getContractRead :: "ContractReadKey \<Rightarrow> error + Hex option"
  insertContractRead :: "ContractReadKey \<Rightarrow> Hex \<Rightarrow> error option"

text \<open>The calls that \<open>readContract\<close> makes to its collaborators, in order.\<close>

datatype Call =
    CacheGetContractRead ContractReadKey
  | RpcReadContract string Hex Hex int
  | CacheInsertContractRead ContractReadKey Hex

text \<open>
  The collaborators of \<open>readContract\<close>: the chain id, the cache (\<open>None\<close> when
  \<open>config.cache\<close> is absent or \<open>null\<close>), the RPC client's \<open>readContract\<close> with the
  arguments \<open>functionName\<close>, \<open>data\<close>, \<open>address\<close>, \<open>blockNumber\<close>, and viem's codec,
  which throws on a mismatch.
\<close>

record ('a, 'r) ReadEnv =
  chainId :: nat
  cache :: "Cache option"
  rpcReadContract :: "string \<Rightarrow> Hex \<Rightarrow> Hex \<Rightarrow> int \<Rightarrow> error + Hex"
  encodeFunctionData :: "Abi \<Rightarrow> string \<Rightarrow> 'a \<Rightarrow> error + Hex"
  decodeFunctionResult :: "Abi \<Rightarrow> string \<Rightarrow> Hex \<Rightarrow> error + 'r"

text \<open>
  \<open>readContract\<close> with the members of its argument object as arguments: contract
  name, function name, address, block number and \<open>args\<close>. The result is the list of
  calls made and the value or the error of the returned promise.
\<close>

definition readContract ::
  "Config \<Rightarrow> ('a, 'r) ReadEnv \<Rightarrow> string \<Rightarrow> string \<Rightarrow> Hex \<Rightarrow> int \<Rightarrow> 'a
     \<Rightarrow> Call list \<times> (error + 'r)" where
  "readContract cfg env contractArg functionName addr blockNum args =
     (case contracts cfg contractArg of
        None \<Rightarrow> ([], Inl (Error (''Contract '' @ contractArg @ '' not found'')))
      | Some c \<Rightarrow>
          (case encodeFunctionData env c functionName args of
             Inl e \<Rightarrow> ([], Inl e)
           | Inr dat \<Rightarrow>
               (let key = (chainId env, addr, functionName, blockNum, dat);
                    lookup = (case cache env of
                                None \<Rightarrow> ([], Inr None)
                              | Some ch \<Rightarrow> ([CacheGetContractRead key], getContractRead ch key))
                in case snd lookup of
                     Inl e \<Rightarrow> (fst lookup, Inl e)
                   | Inr (Some cachedRead) \<Rightarrow>
                       (fst lookup, decodeFunctionResult env c functionName cachedRead)
                   | Inr None \<Rightarrow>
                       (let calls = fst lookup @ [RpcReadContract functionName dat addr blockNum]
                        in case rpcReadContract env functionName dat addr blockNum of
                             Inl e \<Rightarrow> (calls, Inl e)
                           | Inr result \<Rightarrow>
                               (case cache env of
                                  None \<Rightarrow> (calls, decodeFunctionResult env c functionName result)
                                | Some ch \<Rightarrow>
                                    (case insertContractRead ch key result of
                                       Some e \<Rightarrow>
                                         (calls @ [CacheInsertContractRead key result], Inl e)
                                     | None \<Rightarrow>
                                         (calls @ [CacheInsertContractRead key result],
                                          decodeFunctionResult env c functionName result)))))))"

section \<open>The standard RPC transport: getLogs\<close>

text \<open>\<open>String.prototype.includes\<close>: the second string occurs in the first.\<close>

definition includes_str :: "string \<Rightarrow> string \<Rightarrow> bool" where
  "includes_str s part = sublist part s"

text \<open>
  One run of the function that \<open>getLogs\<close> hands to \<open>retry\<close>. Its argument is the
  outcome of \<open>rpcCall("eth_getLogs", ...)\<close>: the logs, or what \<open>rpcCall\<close> or \<open>fetch\<close>
  threw. Only a \<open>JsonRpcError\<close> with an \<open>error\<close> member is inspected.
\<close>

definition getLogsAttempt :: "error + 'l \<Rightarrow> error + 'l" where
  "getLogsAttempt response =
     (case response of
        Inr logs \<Rightarrow> Inr logs
      | Inl e \<Rightarrow>
          (case e of
             JsonRpcError (Some (message, code)) \<Rightarrow>
               if includes_str message ''query returned more than'' \<or>
                  includes_str message ''Log response size exceeded''
               then Inl (JsonRpcRangeTooWideError e)
               else Inl e
           | _ \<Rightarrow> Inl e))"

definition shouldRetry :: "error \<Rightarrow> bool" where
  "shouldRetry err = (case err of JsonRpcRangeTooWideError cause \<Rightarrow> False | _ \<Rightarrow> True)"

text \<open>What the transport does over time: a request, or a pause of so many milliseconds.\<close>

datatype Step = Attempt nat | Wait nat

text \<open>
  Modelled from the spec: \<open>retry\<close> of the module \<open>@/retry\<close>, which is not among the
  sources. The spec says that the transport retries failures up to \<open>maxRetries\<close> times
  with the delay between attempts, and that an error for which \<open>shouldRetry\<close> is false
  is not retried and propagates. \<open>fn k\<close> is the outcome of the \<open>k\<close>-th run of the
  function (counted from \<open>0\<close>); \<open>retry\<close> starts at run \<open>k\<close> with \<open>maxRetries\<close>
  retries left.
\<close>

fun retry ::
  "(nat \<Rightarrow> error + 'a) \<Rightarrow> nat \<Rightarrow> (error \<Rightarrow> bool) \<Rightarrow> nat \<Rightarrow> nat \<Rightarrow> Step list \<times> (error + 'a)" where
  "retry fn 0 should delay k = ([Attempt k], fn k)"
| "retry fn (Suc maxRetries) should delay k =
     (case fn k of
        Inr v \<Rightarrow> ([Attempt k], Inr v)
      | Inl e \<Rightarrow>
          if should e
          then (case retry fn maxRetries should delay (Suc k) of
                  (steps, res) \<Rightarrow> (Attempt k # Wait delay # steps, res))
          else ([Attempt k], Inl e))"

text \<open>
  \<open>getLogs\<close> of \<open>createRpcClient\<close>: \<open>responses k\<close> is the outcome of the \<open>k\<close>-th
  \<open>eth_getLogs\<close> request.
\<close>

definition getLogs :: "(nat \<Rightarrow> error + 'l) \<Rightarrow> Step list \<times> (error + 'l)" where
  "getLogs responses = retry (\<lambda>k. getLogsAttempt (responses k)) 5 shouldRetry 1000 0"

section \<open>The event processor, from the spec\<close>

text \<open>
  Modelled from the spec: \<open>processEvents\<close> of the module \<open>@/eventProcessor\<close>, which is
  not among the sources. The theorems about \<open>poll\<close> hold for every processor; this one
  is what the spec describes. User code is a parameter: \<open>decodes\<close> says whether the log
  of an event decodes against the ABI, \<open>handler\<close> gives the calls of
  \<open>subscribeToContract\<close> that the handlers of an event make, or the error they throw.
\<close>

record Handlers =
  decodes :: "PendingEvent \<Rightarrow> bool"
  handler :: "PendingEvent \<Rightarrow> error + SubscribeOptions list"

fun subscribeAll ::
  "Config \<Rightarrow> SubscribeOptions list \<Rightarrow> Subscriptions \<Rightarrow> Subscriptions \<times> error option" where
  "subscribeAll cfg [] subs = (subs, None)"
| "subscribeAll cfg (opts # rest) subs =
     (case subscribeToContract cfg opts subs of
        Inl e \<Rightarrow> (subs, Some e)
      | Inr subs' \<Rightarrow> subscribeAll cfg rest subs')"

text \<open>
  The spec's skip rule: the position of the event is not after the cursor of its
  subscription.
\<close>

definition alreadyIndexed :: "PendingEvent \<Rightarrow> Subscription \<Rightarrow> bool" where
  "alreadyIndexed e s =
     (blockNumber e < indexedToBlock s \<or>
      (blockNumber e = indexedToBlock s \<and> logIndex e \<le> indexedToLogIndex s))"

text \<open>
  The drain of the queue up to \<open>targetBlock\<close>, steps 1 to 6 of the spec: the map, the
  rest of the queue, the events dispatched, and the error of a handler or the flag
  \<open>hasNewSubscriptions\<close>.
\<close>

fun drain ::
  "Config \<Rightarrow> Handlers \<Rightarrow> int \<Rightarrow> PendingEvent list \<Rightarrow> Subscriptions
     \<Rightarrow> Subscriptions \<times> PendingEvent list \<times> PendingEvent list \<times> (error + bool)" where
  "drain cfg h targetBlock [] subs = (subs, [], [], Inr False)"
| "drain cfg h targetBlock (e # q) subs =
     (if targetBlock < blockNumber e then (subs, e # q, [], Inr False)
      else
        (case map_of subs (subscriptionId e) of
           None \<Rightarrow> drain cfg h targetBlock q subs
         | Some s \<Rightarrow>
             if alreadyIndexed e s \<or> \<not> decodes h e then drain cfg h targetBlock q subs
             else
               (case handler h e of
                  Inl err \<Rightarrow> (subs, q, [e], Inl err)
                | Inr calls \<Rightarrow>
                    (case subscribeAll cfg calls subs of
                       (subs1, Some err) \<Rightarrow> (subs1, q, [e], Inl err)
                     | (subs1, None) \<Rightarrow>
                         (let subs2 = updateSubscription subs1 (subscriptionId e)
                                        (\<lambda>s. s \<lparr> indexedToBlock := blockNumber e,
                                                 indexedToLogIndex := logIndex e \<rparr>)
                          in if \<exists>k \<in> set (map fst subs2). k \<notin> set (map fst subs)
                             then (subs2, q, [e], Inr True)
                             else (case drain cfg h targetBlock q subs2 of
                                     (subs3, q3, dispatched, res) \<Rightarrow>
                                       (subs3, q3, e # dispatched, res)))))))"

text \<open>
  The least cursor \<open>(indexedToBlock, indexedToLogIndex)\<close> of all subscriptions. The
  spec gives no value for an empty map; the model takes the cursor of a fresh
  subscription from block \<open>0\<close>.
\<close>

definition cursorMin :: "int \<times> int \<Rightarrow> int \<times> int \<Rightarrow> int \<times> int" where
  "cursorMin a b = (if fst a < fst b \<or> (fst a = fst b \<and> snd a \<le> snd b) then a else b)"

fun watermark :: "Subscriptions \<Rightarrow> int \<times> int" where
  "watermark [] = (- 1, 0)"
| "watermark [(k, s)] = (indexedToBlock s, indexedToLogIndex s)"
| "watermark ((k, s) # rest) =
     cursorMin (indexedToBlock s, indexedToLogIndex s) (watermark rest)"

text \<open>
  The returned cursors are, in the words of the spec, the watermark up to which every
  subscription is known indexed. When the drain has run to the target without a new
  subscription, every event up to the target has been dispatched and the watermark is
  \<open>(targetBlock, 0)\<close>: the first scenario of the spec has its last log in block \<open>20\<close>
  and reports \<open>progress\<close> with \<open>currentBlock = 100\<close>, the target. When the drain
  stops at a new subscription, the watermark is the least cursor of all subscriptions,
  which the new subscription pulls low (design notes of the spec).
\<close>

definition processEvents_spec ::
  "Config \<Rightarrow> Handlers \<Rightarrow> int \<Rightarrow> Subscriptions \<Rightarrow> PendingEvent list \<Rightarrow> ProcessOutcome" where
  "processEvents_spec cfg h targetBlock subs q =
     (case drain cfg h targetBlock q subs of
        (subs', q', dispatched, res) \<Rightarrow>
          \<lparr> po_subscriptions = subs',
            po_eventQueue = q',
            po_dispatched = dispatched,
            po_result =
              (case res of
                 Inl e \<Rightarrow> Inl e
               | Inr new \<Rightarrow>
                   Inr (if new
                        then \<lparr> res_indexedToBlock = fst (watermark subs'),
                               res_indexedToLogIndex = snd (watermark subs'),
                               hasNewSubscriptions = True \<rparr>
                        else \<lparr> res_indexedToBlock = targetBlock,
                               res_indexedToLogIndex = 0,
                               hasNewSubscriptions = False \<rparr>)) \<rparr>)"

section \<open>Concrete inputs\<close>

text \<open>
  Two addresses in checksummed form, and viem's \<open>getAddress\<close> on the spellings of them
  that the examples use: the checksummed form and the lower-case form give the
  checksummed form. Every other string of the examples is not an address, for which
  \<open>getAddress\<close> throws.
\<close>

definition tokenAddress :: string where
  "tokenAddress = ''0x5aAeb6053F3E94C9b9A09f33669435E7Ef1BeAed''"

definition tokenAddressLower :: string where
  "tokenAddressLower = ''0x5aaeb6053f3e94c9b9a09f33669435e7ef1beaed''"

definition secondAddress :: string where
  "secondAddress = ''0xfB6916095ca1df60bB79Ce92cE3Ea74c37c5d359''"

definition exampleGetAddress :: "string \<Rightarrow> error + string" where
  "exampleGetAddress a =
     (if a = tokenAddress \<or> a = tokenAddressLower then Inr tokenAddress
      else if a = secondAddress then Inr secondAddress
      else Inl (Error ''Address is invalid''))"

text \<open>
  A configuration with one contract, \<open>Token\<close>, whose ABI declares the event
  \<open>Transfer\<close>, without and with a subscription store.
\<close>

definition exampleConfig :: Config where
  "exampleConfig = \<lparr>
     contracts = [''Token'' \<mapsto> [''Transfer'']],
     pollingIntervalMs = None,
     hasSubscriptionStore = False,
     getAddress = exampleGetAddress \<rparr>"

definition exampleStoreConfig :: Config where
  "exampleStoreConfig = exampleConfig \<lparr> hasSubscriptionStore := True \<rparr>"

text \<open>
  Subscribing to the token, its address written in lower case, with every option left
  out.
\<close>

definition exampleOptions :: SubscribeOptions where
  "exampleOptions = \<lparr>
     contract = ''Token'',
     address = tokenAddressLower,
     indexedToBlock_opt = None,
     fromBlock_opt = None,
     fromLogIndex_opt = None,
     toBlock_opt = None,
     id_opt = None \<rparr>"

definition exampleSubscription :: Subscription where
  "exampleSubscription = \<lparr>
     id_sub = tokenAddress,
     abi = [''Transfer''],
     contractName = ''Token'',
     contractAddress = tokenAddress,
     fromBlock = 0,
     toBlock = Latest,
     indexedToBlock = - 1,
     fetchedToBlock = - 1,
     indexedToLogIndex = 0 \<rparr>"

text \<open>
  A subscription in the store, saved under the id \<open>view-1\<close> when it had dispatched
  the log \<open>7\<close> of block \<open>20\<close>.
\<close>

definition exampleStored :: StoredSubscription where
  "exampleStored = \<lparr>
     stored_id = ''view-1'',
     stored_contractName = ''Token'',
     stored_contractAddress = tokenAddress,
     stored_fromBlock = 0,
     stored_toBlock = Latest,
     stored_indexedToBlock = 20,
     stored_indexedToLogIndex = 7 \<rparr>"

text \<open>
  What holds of a subscription as \<open>subscribeToContract\<close> leaves it in the map: its key
  is its id and its address, its log index is \<open>0\<close> and nothing is fetched.
\<close>

definition freshCursor :: "string \<times> Subscription \<Rightarrow> bool" where
  "freshCursor p =
     (id_sub (snd p) = fst p \<and> contractAddress (snd p) = fst p \<and>
      indexedToLogIndex (snd p) = 0 \<and> fetchedToBlock (snd p) = - 1)"

text \<open>
  The plan of requests and pauses of a call that ends at its \<open>k\<close>-th further run:
  the runs \<open>from\<close> to \<open>from + k\<close> with a pause of \<open>delay\<close> between two of them.
\<close>

fun schedule :: "nat \<Rightarrow> nat \<Rightarrow> nat \<Rightarrow> Step list" where
  "schedule delay from 0 = [Attempt from]"
| "schedule delay from (Suc k) = Attempt from # Wait delay # schedule delay (Suc from) k"

fun isAttempt :: "Step \<Rightarrow> bool" where
  "isAttempt (Attempt k) = True"
| "isAttempt (Wait d) = False"

text \<open>
  A provider whose first request fails in the network, whose second is answered with a
  JSON-RPC error about the rate limit, and which then refuses the range; and one that
  always fails in the network.
\<close>

definition refusingProvider :: "nat \<Rightarrow> error + nat list" where
  "refusingProvider k =
     (if k = 0 then Inl (Error ''fetch failed'')
      else if k = 1 then Inl (JsonRpcError (Some (''rate limit exceeded'', - 32005)))
      else Inl (JsonRpcError (Some (''query returned more than 10000 results'', - 32005))))"

definition deadProvider :: "nat \<Rightarrow> error + nat list" where
  "deadProvider k = Inl (Error ''fetch failed'')"

text \<open>
  A cache that holds one contract read, of \<open>balanceOf\<close> at block \<open>5\<close>, and accepts
  every insert; an RPC client that answers \<open>0x02\<close> except at block \<open>9\<close>, where it
  fails; a codec that passes bytes through.
\<close>

definition exampleCache :: Cache where
  "exampleCache = \<lparr>
     getContractRead =
       (\<lambda>key. if key = (1, ''0xabc'', ''balanceOf'', 5, ''0x70'') then Inr (Some ''0x01'')
              else Inr None),
     insertContractRead = (\<lambda>key result. None) \<rparr>"

definition exampleReadEnv :: "(Hex, Hex) ReadEnv" where
  "exampleReadEnv = \<lparr>
     chainId = 1,
     cache = Some exampleCache,
     rpcReadContract =
       (\<lambda>functionName dat addr blockNum.
          if blockNum = 9 then Inl (JsonRpcError None) else Inr ''0x02''),
     encodeFunctionData = (\<lambda>c functionName args. Inr args),
     decodeFunctionResult = (\<lambda>c functionName result. Inr result) \<rparr>"

text \<open>A progress signal among the effects.\<close>

fun isProgress :: "Effect \<Rightarrow> bool" where
  "isProgress (Emit (ProgressSignal currentBlock targetBlock pendingEventsCount)) = True"
| "isProgress effect = False"

text \<open>
  The cursor safety of the spec for one subscription: \<open>indexedToBlock \<le> fetchedToBlock
  \<le> targetBlock\<close>, and \<open>indexedToBlock \<le> toBlock\<close> when \<open>toBlock\<close> is a height.
\<close>

definition cursorSafety :: "int \<Rightarrow> Subscription \<Rightarrow> bool" where
  "cursorSafety targetBlock s =
     (indexedToBlock s \<le> fetchedToBlock s \<and> fetchedToBlock s \<le> targetBlock \<and>
      (case toBlock s of Latest \<Rightarrow> True | Height h \<Rightarrow> indexedToBlock s \<le> h))"

text \<open>
  The first scenario of the spec: one subscription to the token from block \<open>0\<close>, the
  chain at block \<open>100\<close>, three \<open>Transfer\<close> logs at \<open>(10,0)\<close>, \<open>(20,0)\<close> and
  \<open>(20,1)\<close>, handlers that subscribe to nothing, indexed with \<open>indexToBlock(100)\<close>.
\<close>

definition transferAt :: "int \<Rightarrow> int \<Rightarrow> PendingEvent" where
  "transferAt b l = \<lparr> blockNumber = b, logIndex = l, subscriptionId = tokenAddress \<rparr>"

definition quietHandlers :: Handlers where
  "quietHandlers = \<lparr> decodes = (\<lambda>e. True), handler = (\<lambda>e. Inr []) \<rparr>"

definition scenarioEnv :: PollEnv where
  "scenarioEnv = \<lparr>
     getLastBlockNumber = Inr 100,
     getSubscriptionEvents =
       (\<lambda>targetBlock subs. ([transferAt 10 0, transferAt 20 0, transferAt 20 1], None)),
     processEvents = processEvents_spec exampleConfig quietHandlers,
     saveSubscriptionsToStore = (\<lambda>subs. None) \<rparr>"

definition scenarioIndexer :: Indexer where
  "scenarioIndexer = \<lparr>
     state = Running (Height 100) IndexToBlockCallbacks,
     subscriptions = [(tokenAddress, exampleSubscription)],
     eventQueue = [],
     effects = [SetTimeout 0, Emit StartedSignal] \<rparr>"

text \<open>
  The same chain without logs, and a subscription that ends at block \<open>50\<close>.
\<close>

definition silentEnv :: PollEnv where
  "silentEnv = scenarioEnv \<lparr> getSubscriptionEvents := (\<lambda>targetBlock subs. ([], None)) \<rparr>"

definition boundedIndexer :: Indexer where
  "boundedIndexer =
     scenarioIndexer
       \<lparr> subscriptions := [(tokenAddress, exampleSubscription \<lparr> toBlock := Height 50 \<rparr>)] \<rparr>"

text \<open>
  The fifth scenario of the spec: the handler of the first event subscribes to a second
  token. A subscription store is configured; in the second environment its write
  fails.
\<close>

definition spawningHandlers :: Handlers where
  "spawningHandlers = \<lparr>
     decodes = (\<lambda>e. True),
     handler = (\<lambda>e. if blockNumber e = 10
                     then Inr [exampleOptions \<lparr> address := secondAddress \<rparr>] else Inr []) \<rparr>"

definition spawningEnv :: PollEnv where
  "spawningEnv = scenarioEnv \<lparr> processEvents := processEvents_spec exampleConfig spawningHandlers \<rparr>"

definition fullDiskEnv :: PollEnv where
  "fullDiskEnv = spawningEnv \<lparr> saveSubscriptionsToStore := (\<lambda>subs. Some (Error ''disk full'')) \<rparr>"

text \<open>
  The same subscription and chain under \<open>watch\<close>, and a node that does not answer
  \<open>getLastBlockNumber\<close>.
\<close>

definition watchingIndexer :: Indexer where
  "watchingIndexer = scenarioIndexer \<lparr> state := Running Latest WatchCallbacks \<rparr>"

definition offlineEnv :: PollEnv where
  "offlineEnv = scenarioEnv \<lparr> getLastBlockNumber := Inl (Error ''fetch failed'') \<rparr>"

section \<open>Properties of subscribeToContract and init\<close>

lemma subscribeToContract_Inr:
  "subscribeToContract cfg opts subs = Inr subs' \<Longrightarrow>
   \<exists>addr s. getAddress cfg (address opts) = Inr addr \<and> subs' = AList.update addr s subs \<and>
     id_sub s = addr \<and> contractAddress s = addr \<and>
     indexedToLogIndex s = 0 \<and> fetchedToBlock s = - 1"
  by (auto simp: subscribeToContract_def Let_def split: sum.splits option.splits)

lemma subscribeToContract_ignores:
  "subscribeToContract cfg (opts \<lparr> id_opt := i, fromLogIndex_opt := l \<rparr>) subs =
   subscribeToContract cfg opts subs"
  by (simp add: subscribeToContract_def Let_def split: sum.splits option.splits)

lemma set_update_subset: "set (AList.update k v al) \<subseteq> insert (k, v) (set al)"
  by (induction al) auto

lemma subscribeToContract_fresh:
  assumes "subscribeToContract cfg opts subs = Inr subs'" "list_all freshCursor subs"
  shows "list_all freshCursor subs'"
proof -
  from subscribeToContract_Inr [OF assms(1)] obtain addr s where
    s: "subs' = AList.update addr s subs" "freshCursor (addr, s)"
    by (auto simp: freshCursor_def)
  show ?thesis
    using set_update_subset [of addr s subs] s assms(2)
    by (auto simp: list_all_iff)
qed

lemma loadSubscriptions_fresh:
  "loadSubscriptions cfg stored subs = (loaded, err) \<Longrightarrow> list_all freshCursor subs \<Longrightarrow>
   list_all freshCursor loaded"
proof (induction stored arbitrary: subs)
  case Nil
  then show ?case by simp
next
  case (Cons a stored)
  then show ?case
    by (auto split: sum.splits dest: subscribeToContract_fresh)
qed

lemma init_fresh:
  "init cfg storeAll subs = (loaded, err) \<Longrightarrow> list_all freshCursor subs \<Longrightarrow>
   list_all freshCursor loaded"
  by (auto simp: init_def split: if_splits sum.splits dest: loadSubscriptions_fresh)

text \<open>
  C9. Every subscription that \<open>subscribeToContract\<close> produces is stored under the
  checksummed address, which is also its id, with \<open>indexedToLogIndex = 0\<close> and
  \<open>fetchedToBlock = -1\<close>; the options \<open>id\<close> and \<open>fromLogIndex\<close> do not change the
  result; and after \<open>init\<close> every subscription of the map is of that form, so a
  subscription loaded from the store does not resume from its persisted log index.
\<close>

theorem subscribeToContract_resets_cursor:
  "(subscribeToContract cfg opts subs = Inr subs' \<longrightarrow>
      (\<exists>addr s. getAddress cfg (address opts) = Inr addr \<and>
           subs' = AList.update addr s subs \<and> id_sub s = addr \<and> contractAddress s = addr \<and>
           indexedToLogIndex s = 0 \<and> fetchedToBlock s = - 1)) \<and>
   subscribeToContract cfg (opts \<lparr> id_opt := i, fromLogIndex_opt := l \<rparr>) subs =
     subscribeToContract cfg opts subs \<and>
   (init cfg storeAll subs = (loaded, err) \<and> list_all freshCursor subs \<longrightarrow>
      list_all freshCursor loaded)"
  using subscribeToContract_Inr [of cfg opts subs subs']
    subscribeToContract_ignores [where cfg = cfg and opts = opts and i = i and l = l and subs = subs]
    init_fresh [of cfg storeAll subs loaded err]
  by blast

lemma example_subscribe:
  "subscribeToContract exampleConfig exampleOptions [] =
     Inr [(tokenAddress, exampleSubscription)]"
  by code_simp

lemma example_init:
  "init exampleStoreConfig (Inr [exampleStored]) [] =
     ([(tokenAddress, exampleSubscription \<lparr> indexedToBlock := 20 \<rparr>)], None)"
  by code_simp

theorem subscribeToContract_resets_cursor_witness:
  "subscribeToContract exampleConfig
     (exampleOptions \<lparr> id_opt := Some ''view-1'', fromLogIndex_opt := Some 7 \<rparr>) [] =
     Inr [(tokenAddress, exampleSubscription)] \<and>
   init exampleStoreConfig (Inr [exampleStored]) [] =
     ([(tokenAddress, exampleSubscription \<lparr> indexedToBlock := 20 \<rparr>)], None) \<and>
   list_all freshCursor [(tokenAddress, exampleSubscription \<lparr> indexedToBlock := 20 \<rparr>)]"
  using subscribeToContract_resets_cursor [where cfg = exampleConfig and opts = exampleOptions
      and subs = "[]" and subs' = "[(tokenAddress, exampleSubscription)]"
      and i = "Some ''view-1''" and l = "Some 7"]
    subscribeToContract_resets_cursor [where cfg = exampleStoreConfig and subs = "[]"
      and storeAll = "Inr [exampleStored]" and err = None
      and loaded = "[(tokenAddress, exampleSubscription \<lparr> indexedToBlock := 20 \<rparr>)]"]
    example_subscribe example_init
  by simp

text \<open>
  C3. Whenever the address of the options is valid, with checksummed form \<open>addr\<close>,
  and the contract is known, \<open>subscribeToContract\<close> with a custom id \<open>i\<close> other than
  \<open>addr\<close> stores the subscription under \<open>addr\<close>, with \<open>addr\<close> as its id, and
  leaves the entry of \<open>i\<close> as it was: the option \<open>id\<close> is never read, so a second
  subscription to the same address under another id replaces the first.
\<close>

theorem subscribeToContract_custom_id_dropped:
  assumes "getAddress cfg (address opts) = Inr addr"
    and "contracts cfg (contract opts) = Some c"
    and "id_opt opts = Some i"
    and "i \<noteq> addr"
  shows "\<exists>s. subscribeToContract cfg opts subs = Inr (AList.update addr s subs) \<and>
    id_sub s = addr \<and>
    map_of (AList.update addr s subs) addr = Some s \<and>
    map_of (AList.update addr s subs) i = map_of subs i"
proof -
  obtain subs' where r: "subscribeToContract cfg opts subs = Inr subs'"
    using assms(1,2) by (simp add: subscribeToContract_def Let_def)
  from subscribeToContract_Inr [OF r] assms(1) obtain s where
    s: "subs' = AList.update addr s subs" "id_sub s = addr"
    by auto
  from assms(4) have "map_of (AList.update addr s subs) addr = Some s"
    and "map_of (AList.update addr s subs) i = map_of subs i"
    by (simp_all add: update_conv')
  with r s show ?thesis by blast
qed

theorem subscribeToContract_custom_id_dropped_witness:
  "subscribeToContract exampleConfig (exampleOptions \<lparr> id_opt := Some ''view-1'' \<rparr>) [] =
     Inr [(tokenAddress, exampleSubscription)] \<and>
   subscribeToContract exampleConfig
     (exampleOptions \<lparr> id_opt := Some ''view-2'', fromBlock_opt := Some 10 \<rparr>)
     [(tokenAddress, exampleSubscription)] =
     Inr [(tokenAddress, exampleSubscription \<lparr> fromBlock := 10, indexedToBlock := 9 \<rparr>)] \<and>
   map_of [(tokenAddress, exampleSubscription)] ''view-1'' = None"
proof -
  have a: "getAddress exampleConfig (address (exampleOptions \<lparr> id_opt := Some ''view-1'' \<rparr>)) =
      Inr tokenAddress"
    by code_simp
  have c: "contracts exampleConfig (contract (exampleOptions \<lparr> id_opt := Some ''view-1'' \<rparr>)) =
      Some [''Transfer'']"
    by code_simp
  have i: "id_opt (exampleOptions \<lparr> id_opt := Some ''view-1'' \<rparr>) = Some ''view-1''"
    by simp
  have n: "''view-1'' \<noteq> tokenAddress"
    by code_simp
  have first: "subscribeToContract exampleConfig (exampleOptions \<lparr> id_opt := Some ''view-1'' \<rparr>) [] =
      Inr [(tokenAddress, exampleSubscription)]"
    by code_simp
  have second: "subscribeToContract exampleConfig
      (exampleOptions \<lparr> id_opt := Some ''view-2'', fromBlock_opt := Some 10 \<rparr>)
      [(tokenAddress, exampleSubscription)] =
      Inr [(tokenAddress, exampleSubscription \<lparr> fromBlock := 10, indexedToBlock := 9 \<rparr>)]"
    by code_simp
  from subscribeToContract_custom_id_dropped [OF a c i n, of "[]"] first second
  show ?thesis by auto
qed

section \<open>The branches of a poll tick\<close>


text \<open>The error callback of \<open>watch\<close>, followed by the \<open>scheduleNextPoll()\<close> of the tick.\<close>

lemma caught_under_watch:
  "state j = Running st WatchCallbacks \<Longrightarrow>
   scheduleNextPoll d (onError WatchCallbacks e j) =
     j \<lparr> effects := effects j @ [Emit (ErrorSignal e), SetTimeout d] \<rparr>"
  by (simp add: onError_def scheduleNextPoll_def performs_def)

text \<open>The error callback of \<open>indexToBlock\<close>: after its \<open>stop()\<close> no timer is set.\<close>

lemma caught_under_indexToBlock:
  "state j = Running st IndexToBlockCallbacks \<Longrightarrow>
   scheduleNextPoll d (onError IndexToBlockCallbacks e j) =
     j \<lparr> effects := effects j @
            [Reject e, ClearTimeout, Emit StoppedSignal, OnStop IndexToBlockCallbacks, Resolve],
         state := Stopped \<rparr>"
  by (simp add: onError_def scheduleNextPoll_def performs_def stop_def onStop_def)

text \<open>
  The call of \<open>processEvents\<close> in a tick, written out: the subscriptions with
  \<open>fetchedToBlock\<close> at the target, and the queue with the pushed events.
\<close>

lemma processed_call:
  assumes "getSubscriptionEvents env t (subscriptions ix) = (pushed, perr)"
  shows "processed env t ix =
    processEvents env t
      (updateEach (map fst (subscriptions ix)) (toFetched t) (subscriptions ix))
      (fold queue_event pushed (eventQueue ix))"
  using assms by (simp add: processed_def fetched_def planned_def Let_def)

lemma afterDispatch_call:
  assumes "getSubscriptionEvents env t (subscriptions ix) = (pushed, perr)"
    and "processEvents env t
           (updateEach (map fst (subscriptions ix)) (toFetched t) (subscriptions ix))
           (fold queue_event pushed (eventQueue ix)) = out"
  shows "afterDispatch env t ix =
    ix \<lparr> subscriptions := po_subscriptions out, eventQueue := po_eventQueue out,
         effects := effects ix @ map (\<lambda>ev. Emit (EventSignal ev)) (po_dispatched out) \<rparr>"
  using assms processed_call [OF assms(1)]
  by (simp add: afterDispatch_def planned_def performs_def Let_def)

lemma poll_target_fails:
  assumes "state ix = Running st cb"
    and "resolveTarget env st = Inl e"
  shows "poll cfg env ix = scheduleNextPoll (eventPollDelayMs cfg) (onError cb e ix)"
  using assms by (simp add: poll_def pollBody_def)

lemma poll_planner_fails:
  assumes "state ix = Running st cb"
    and "resolveTarget env st = Inr t"
    and "getSubscriptionEvents env t (subscriptions ix) = (pushed, Some e)"
  shows "poll cfg env ix =
    scheduleNextPoll (eventPollDelayMs cfg)
      (onError cb e (ix \<lparr> eventQueue := fold queue_event pushed (eventQueue ix) \<rparr>))"
  using assms by (simp add: poll_def pollBody_def planned_def Let_def)

lemma poll_processor_fails:
  assumes "state ix = Running st cb"
    and "resolveTarget env st = Inr t"
    and "getSubscriptionEvents env t (subscriptions ix) = (pushed, None)"
    and "processEvents env t
           (updateEach (map fst (subscriptions ix)) (toFetched t) (subscriptions ix))
           (fold queue_event pushed (eventQueue ix)) = out"
    and "po_result out = Inl e"
  shows "poll cfg env ix =
    scheduleNextPoll (eventPollDelayMs cfg)
      (onError cb e
         (ix \<lparr> subscriptions := po_subscriptions out, eventQueue := po_eventQueue out,
               effects := effects ix @ map (\<lambda>ev. Emit (EventSignal ev)) (po_dispatched out) \<rparr>))"
proof -
  have "pollBody cfg env st ix =
      (ix \<lparr> subscriptions := po_subscriptions out, eventQueue := po_eventQueue out,
            effects := effects ix @ map (\<lambda>ev. Emit (EventSignal ev)) (po_dispatched out) \<rparr>,
       Threw e)"
    using assms(2,3,5) processed_call [OF assms(3)] afterDispatch_call [OF assms(3,4)] assms(4)
    by (simp add: pollBody_def Let_def)
  with assms(1) show ?thesis by (simp add: poll_def)
qed

lemma pollBody_processed:
  assumes "resolveTarget env st = Inr t"
    and "getSubscriptionEvents env t (subscriptions ix) = (pushed, None)"
    and "processEvents env t
           (updateEach (map fst (subscriptions ix)) (toFetched t) (subscriptions ix))
           (fold queue_event pushed (eventQueue ix)) = out"
    and "po_result out = Inr r"
  shows "pollBody cfg env st ix =
    afterProcess cfg env st t (map fst (subscriptions ix)) r
      (ix \<lparr> subscriptions := po_subscriptions out, eventQueue := po_eventQueue out,
            effects := effects ix @ map (\<lambda>ev. Emit (EventSignal ev)) (po_dispatched out) \<rparr>)"
  using assms(1,2,4) processed_call [OF assms(2)] afterDispatch_call [OF assms(2,3)] assms(3)
  by (simp add: pollBody_def planned_def Let_def)

text \<open>The branch of \<open>hasNewSubscriptions\<close>.\<close>

lemma poll_new_saved:
  assumes "state ix = Running st cb"
    and "resolveTarget env st = Inr t"
    and "getSubscriptionEvents env t (subscriptions ix) = (pushed, None)"
    and "processEvents env t
           (updateEach (map fst (subscriptions ix)) (toFetched t) (subscriptions ix))
           (fold queue_event pushed (eventQueue ix)) = out"
    and "po_result out = Inr r"
    and "hasNewSubscriptions r"
    and "W = updateEach (map fst (subscriptions ix)) (toWatermark r) (po_subscriptions out)"
    and "hasSubscriptionStore cfg \<longrightarrow> saveSubscriptionsToStore env W = None"
  shows "poll cfg env ix =
    ix \<lparr> subscriptions := W, eventQueue := po_eventQueue out,
         effects := effects ix @ map (\<lambda>ev. Emit (EventSignal ev)) (po_dispatched out) @
           (if hasSubscriptionStore cfg then [StoreSave W] else []) @ [SetTimeout 0] \<rparr>"
  using assms(1,6,7,8) pollBody_processed [OF assms(2,3,4,5), of cfg]
  by (simp add: poll_def afterProcess_def persist_def performs_def scheduleNextPoll_def Let_def)

lemma poll_new_save_fails:
  assumes "state ix = Running st cb"
    and "resolveTarget env st = Inr t"
    and "getSubscriptionEvents env t (subscriptions ix) = (pushed, None)"
    and "processEvents env t
           (updateEach (map fst (subscriptions ix)) (toFetched t) (subscriptions ix))
           (fold queue_event pushed (eventQueue ix)) = out"
    and "po_result out = Inr r"
    and "hasNewSubscriptions r"
    and "W = updateEach (map fst (subscriptions ix)) (toWatermark r) (po_subscriptions out)"
    and "hasSubscriptionStore cfg"
    and "saveSubscriptionsToStore env W = Some e"
  shows "poll cfg env ix =
    scheduleNextPoll (eventPollDelayMs cfg)
      (onError cb e
         (ix \<lparr> subscriptions := W, eventQueue := po_eventQueue out,
               effects := effects ix @ map (\<lambda>ev. Emit (EventSignal ev)) (po_dispatched out) @
                 [StoreSave W] \<rparr>))"
proof -
  have "pollBody cfg env st ix =
      (ix \<lparr> subscriptions := W, eventQueue := po_eventQueue out,
            effects := effects ix @ map (\<lambda>ev. Emit (EventSignal ev)) (po_dispatched out) @
              [StoreSave W] \<rparr>, Threw e)"
    using assms(6,7,8,9) pollBody_processed [OF assms(2,3,4,5), of cfg]
    by (simp add: afterProcess_def persist_def performs_def Let_def)
  with assms(1) show ?thesis by (simp add: poll_def)
qed

text \<open>The branch without new subscriptions.\<close>

lemma poll_caught_up:
  assumes "state ix = Running st cb"
    and "resolveTarget env st = Inr t"
    and "getSubscriptionEvents env t (subscriptions ix) = (pushed, None)"
    and "processEvents env t
           (updateEach (map fst (subscriptions ix)) (toFetched t) (subscriptions ix))
           (fold queue_event pushed (eventQueue ix)) = out"
    and "po_result out = Inr r"
    and "\<not> hasNewSubscriptions r"
    and "W = updateEach (map fst (subscriptions ix)) (toTarget t)
               (updateEach (map fst (subscriptions ix)) (toWatermark r) (po_subscriptions out))"
    and "hasSubscriptionStore cfg \<longrightarrow> saveSubscriptionsToStore env W = None"
  shows "poll cfg env ix =
    ix \<lparr> subscriptions := W, eventQueue := po_eventQueue out,
         effects := effects ix @ map (\<lambda>ev. Emit (EventSignal ev)) (po_dispatched out) @
           [Emit (ProgressSignal (res_indexedToBlock r) t (length (po_eventQueue out)))] @
           (if hasSubscriptionStore cfg then [StoreSave W] else []) @
           (if st = Height t then [ClearTimeout, Emit StoppedSignal, OnStop cb] @ onStop cb
            else [SetTimeout (eventPollDelayMs cfg)]),
         state := (if st = Height t then Stopped else Running st cb) \<rparr>"
  using assms(1,6,7,8) pollBody_processed [OF assms(2,3,4,5), of cfg]
  by (auto simp: poll_def afterProcess_def persist_def performs_def scheduleNextPoll_def
      stop_def Let_def)

lemma poll_caught_up_save_fails:
  assumes "state ix = Running st cb"
    and "resolveTarget env st = Inr t"
    and "getSubscriptionEvents env t (subscriptions ix) = (pushed, None)"
    and "processEvents env t
           (updateEach (map fst (subscriptions ix)) (toFetched t) (subscriptions ix))
           (fold queue_event pushed (eventQueue ix)) = out"
    and "po_result out = Inr r"
    and "\<not> hasNewSubscriptions r"
    and "W = updateEach (map fst (subscriptions ix)) (toTarget t)
               (updateEach (map fst (subscriptions ix)) (toWatermark r) (po_subscriptions out))"
    and "hasSubscriptionStore cfg"
    and "saveSubscriptionsToStore env W = Some e"
  shows "poll cfg env ix =
    scheduleNextPoll (eventPollDelayMs cfg)
      (onError cb e
         (ix \<lparr> subscriptions := W, eventQueue := po_eventQueue out,
               effects := effects ix @ map (\<lambda>ev. Emit (EventSignal ev)) (po_dispatched out) @
                 [Emit (ProgressSignal (res_indexedToBlock r) t (length (po_eventQueue out))),
                  StoreSave W] \<rparr>))"
proof -
  have "pollBody cfg env st ix =
      (ix \<lparr> subscriptions := W, eventQueue := po_eventQueue out,
            effects := effects ix @ map (\<lambda>ev. Emit (EventSignal ev)) (po_dispatched out) @
              [Emit (ProgressSignal (res_indexedToBlock r) t (length (po_eventQueue out))),
               StoreSave W] \<rparr>, Threw e)"
    using assms(6,7,8,9) pollBody_processed [OF assms(2,3,4,5), of cfg]
    by (simp add: afterProcess_def persist_def performs_def Let_def)
  with assms(1) show ?thesis by (simp add: poll_def)
qed


lemma no_progress_in_events:
  "filter isProgress (map (\<lambda>ev. Emit (EventSignal ev)) evs) = []"
  by (induction evs) simp_all

section \<open>Properties of stop, watch and indexToBlock\<close>

text \<open>
  C8. In state \<open>running\<close>, \<open>stop\<close> clears the timer, emits \<open>stopped\<close>, invokes the
  \<open>onStop\<close> of the running state and leaves the state \<open>stopped\<close>, without an error;
  in the states \<open>initial\<close> and \<open>stopped\<close> it fails with an error and changes nothing.
\<close>

theorem stop_running_or_error:
  "(state ix = Running tb cb \<longrightarrow>
      stop ix =
        (ix \<lparr> effects := effects ix @ [ClearTimeout, Emit StoppedSignal, OnStop cb] @ onStop cb,
              state := Stopped \<rparr>, None)) \<and>
   (state ix = Initial \<or> state ix = Stopped \<longrightarrow>
      stop ix = (ix, Some (Error ''Indexer is not running'')))"
  by (auto simp: stop_def performs_def)

theorem stop_running_or_error_witness:
  "stop (createIndexer \<lparr> state := Running Latest WatchCallbacks \<rparr>) =
     (createIndexer \<lparr> effects := [ClearTimeout, Emit StoppedSignal, OnStop WatchCallbacks],
                      state := Stopped \<rparr>, None) \<and>
   stop createIndexer = (createIndexer, Some (Error ''Indexer is not running''))"
  using stop_running_or_error [of "createIndexer \<lparr> state := Running Latest WatchCallbacks \<rparr>"
      Latest WatchCallbacks]
    stop_running_or_error [of createIndexer]
  by (simp add: createIndexer_def onStop_def)













section \<open>Failures on the watch path\<close>

lemma loadSubscriptions_append:
  "loadSubscriptions cfg (pre @ rest) subs =
     (case loadSubscriptions cfg pre subs of
        (subs1, None) \<Rightarrow> loadSubscriptions cfg rest subs1
      | (subs1, Some e) \<Rightarrow> (subs1, Some e))"
  by (induction pre arbitrary: subs) (auto split: sum.splits)

lemma init_rejected:
  assumes "hasSubscriptionStore cfg"
    and "loadSubscriptions cfg pre subs = (subs1, None)"
    and "subscribeToContract cfg (storedOptions bad) subs1 = Inl e"
  shows "init cfg (Inr (pre @ bad # rest)) subs = (subs1, Some e)"
  using assms by (simp add: init_def loadSubscriptions_append)

lemma watch_never_throws: "snd (watch cfg storeAll ix) = None"
  by (simp add: watch_def Let_def)

lemma watch_while_running:
  "state ix = Running tb cb \<Longrightarrow>
   fst (watch cfg storeAll ix) =
     ix \<lparr> effects := effects ix @ [Emit (ErrorSignal (Error ''Indexer is already running''))] \<rparr> \<and>
   indexToBlock cfg storeAll lastBlock target ix =
     (ix, Some (Error ''Indexer is already running''))"
  by (simp add: watch_def indexToBlock_def performs_def Let_def)

lemma watch_init_fails:
  "state ix = Initial \<Longrightarrow> init cfg storeAll (subscriptions ix) = (subs1, Some e) \<Longrightarrow>
   fst (watch cfg storeAll ix) =
     ix \<lparr> subscriptions := subs1, effects := effects ix @ [Emit (ErrorSignal e)] \<rparr> \<and>
   indexToBlock cfg storeAll lastBlock target ix = (ix \<lparr> subscriptions := subs1 \<rparr>, Some e)"
  by (simp add: watch_def indexToBlock_def performs_def Let_def)

text \<open>
  C10. \<open>watch\<close> never throws at the call, in any state; every failure on its path
  goes to the \<open>error\<close> signal. Called in state \<open>running\<close> it emits \<open>error\<close> with
  "Indexer is already running", where \<open>indexToBlock\<close> rejects with that error. When the
  store fails in \<open>init\<close>, or a stored subscription is refused by
  \<open>subscribeToContract\<close>, it emits \<open>error\<close> with that failure and stays
  \<open>initial\<close>, where \<open>indexToBlock\<close> rejects. And in a poll tick of an indexer started
  by \<open>watch\<close>, a failure of \<open>getLastBlockNumber\<close>, of the planner, of the event
  processor or of the store write is emitted as \<open>error\<close>, the indexer stays
  \<open>running\<close> and the next tick is scheduled after the polling interval.
\<close>

theorem watch_reports_by_signal:
  "snd (watch cfg storeAll ix) = None \<and>
   (state ix = Running tb cb \<longrightarrow>
      fst (watch cfg storeAll ix) =
        ix \<lparr> effects := effects ix @ [Emit (ErrorSignal (Error ''Indexer is already running''))] \<rparr> \<and>
      indexToBlock cfg storeAll lastBlock target ix =
        (ix, Some (Error ''Indexer is already running''))) \<and>
   (state ix = Initial \<and> hasSubscriptionStore cfg \<and> storeAll = Inl e \<longrightarrow>
      fst (watch cfg storeAll ix) = ix \<lparr> effects := effects ix @ [Emit (ErrorSignal e)] \<rparr> \<and>
      indexToBlock cfg storeAll lastBlock target ix = (ix, Some e)) \<and>
   (state ix = Initial \<and> hasSubscriptionStore cfg \<and> storeAll = Inr (pre @ bad # rest) \<and>
    loadSubscriptions cfg pre (subscriptions ix) = (loaded, None) \<and>
    subscribeToContract cfg (storedOptions bad) loaded = Inl e \<longrightarrow>
      fst (watch cfg storeAll ix) =
        ix \<lparr> subscriptions := loaded, effects := effects ix @ [Emit (ErrorSignal e)] \<rparr> \<and>
      indexToBlock cfg storeAll lastBlock target ix = (ix \<lparr> subscriptions := loaded \<rparr>, Some e)) \<and>
   (state ix = Running st WatchCallbacks \<and> resolveTarget env st = Inl e \<longrightarrow>
      poll cfg env ix =
        ix \<lparr> effects := effects ix @ [Emit (ErrorSignal e), SetTimeout (eventPollDelayMs cfg)] \<rparr>) \<and>
   (state ix = Running st WatchCallbacks \<and> resolveTarget env st = Inr t \<and>
    getSubscriptionEvents env t (subscriptions ix) = (pushed, Some e) \<longrightarrow>
      poll cfg env ix =
        ix \<lparr> eventQueue := fold queue_event pushed (eventQueue ix),
             effects := effects ix @ [Emit (ErrorSignal e), SetTimeout (eventPollDelayMs cfg)] \<rparr>) \<and>
   (state ix = Running st WatchCallbacks \<and> resolveTarget env st = Inr t \<and>
    getSubscriptionEvents env t (subscriptions ix) = (pushed, None) \<and>
    processEvents env t
      (updateEach (map fst (subscriptions ix)) (toFetched t) (subscriptions ix))
      (fold queue_event pushed (eventQueue ix)) = out \<longrightarrow>
      (po_result out = Inl e \<longrightarrow>
         poll cfg env ix =
           ix \<lparr> subscriptions := po_subscriptions out, eventQueue := po_eventQueue out,
                effects := effects ix @ map (\<lambda>ev. Emit (EventSignal ev)) (po_dispatched out) @
                  [Emit (ErrorSignal e), SetTimeout (eventPollDelayMs cfg)] \<rparr>) \<and>
      (po_result out = Inr r \<and> hasNewSubscriptions r \<and> hasSubscriptionStore cfg \<and>
       saveSubscriptionsToStore env
         (updateEach (map fst (subscriptions ix)) (toWatermark r) (po_subscriptions out)) =
         Some e \<longrightarrow>
         state (poll cfg env ix) = Running st WatchCallbacks \<and>
         tickEffects cfg env ix =
           map (\<lambda>ev. Emit (EventSignal ev)) (po_dispatched out) @
           [StoreSave
              (updateEach (map fst (subscriptions ix)) (toWatermark r) (po_subscriptions out)),
            Emit (ErrorSignal e), SetTimeout (eventPollDelayMs cfg)]) \<and>
      (po_result out = Inr r \<and> \<not> hasNewSubscriptions r \<and> hasSubscriptionStore cfg \<and>
       saveSubscriptionsToStore env
         (updateEach (map fst (subscriptions ix)) (toTarget t)
            (updateEach (map fst (subscriptions ix)) (toWatermark r) (po_subscriptions out))) =
         Some e \<longrightarrow>
         state (poll cfg env ix) = Running st WatchCallbacks \<and>
         tickEffects cfg env ix =
           map (\<lambda>ev. Emit (EventSignal ev)) (po_dispatched out) @
           [Emit (ProgressSignal (res_indexedToBlock r) t (length (po_eventQueue out))),
            StoreSave
              (updateEach (map fst (subscriptions ix)) (toTarget t)
                 (updateEach (map fst (subscriptions ix)) (toWatermark r)
                    (po_subscriptions out))),
            Emit (ErrorSignal e), SetTimeout (eventPollDelayMs cfg)]))"
proof -
  let ?d = "eventPollDelayMs cfg"
  have store: "fst (watch cfg storeAll ix) = ix \<lparr> effects := effects ix @ [Emit (ErrorSignal e)] \<rparr> \<and>
      indexToBlock cfg storeAll lastBlock target ix = (ix, Some e)"
    if "state ix = Initial" "hasSubscriptionStore cfg" "storeAll = Inl e"
  proof -
    have "init cfg storeAll (subscriptions ix) = (subscriptions ix, Some e)"
      using that by (simp add: init_def)
    from watch_init_fails [OF that(1) this] show ?thesis by simp
  qed
  have refused: "fst (watch cfg storeAll ix) =
        ix \<lparr> subscriptions := loaded, effects := effects ix @ [Emit (ErrorSignal e)] \<rparr> \<and>
      indexToBlock cfg storeAll lastBlock target ix = (ix \<lparr> subscriptions := loaded \<rparr>, Some e)"
    if "state ix = Initial" "hasSubscriptionStore cfg" "storeAll = Inr (pre @ bad # rest)"
      "loadSubscriptions cfg pre (subscriptions ix) = (loaded, None)"
      "subscribeToContract cfg (storedOptions bad) loaded = Inl e"
    using watch_init_fails [OF that(1)] init_rejected [OF that(2,4,5)] that(3) by simp
  have target: "poll cfg env ix =
      ix \<lparr> effects := effects ix @ [Emit (ErrorSignal e), SetTimeout ?d] \<rparr>"
    if "state ix = Running st WatchCallbacks" "resolveTarget env st = Inl e"
    using poll_target_fails [OF that] caught_under_watch [OF that(1)] by simp
  have planner: "poll cfg env ix =
      ix \<lparr> eventQueue := fold queue_event pushed (eventQueue ix),
           effects := effects ix @ [Emit (ErrorSignal e), SetTimeout ?d] \<rparr>"
    if "state ix = Running st WatchCallbacks" "resolveTarget env st = Inr t"
      "getSubscriptionEvents env t (subscriptions ix) = (pushed, Some e)"
  proof -
    let ?j = "ix \<lparr> eventQueue := fold queue_event pushed (eventQueue ix) \<rparr>"
    have "state ?j = Running st WatchCallbacks" using that(1) by simp
    from poll_planner_fails [OF that] caught_under_watch [OF this] show ?thesis by simp
  qed
  have processor: "poll cfg env ix =
      ix \<lparr> subscriptions := po_subscriptions out, eventQueue := po_eventQueue out,
           effects := effects ix @ map (\<lambda>ev. Emit (EventSignal ev)) (po_dispatched out) @
             [Emit (ErrorSignal e), SetTimeout ?d] \<rparr>"
    if "state ix = Running st WatchCallbacks" "resolveTarget env st = Inr t"
      "getSubscriptionEvents env t (subscriptions ix) = (pushed, None)"
      "processEvents env t
         (updateEach (map fst (subscriptions ix)) (toFetched t) (subscriptions ix))
         (fold queue_event pushed (eventQueue ix)) = out"
      "po_result out = Inl e"
  proof -
    let ?j = "ix \<lparr> subscriptions := po_subscriptions out, eventQueue := po_eventQueue out,
        effects := effects ix @ map (\<lambda>ev. Emit (EventSignal ev)) (po_dispatched out) \<rparr>"
    have "state ?j = Running st WatchCallbacks" using that(1) by simp
    from poll_processor_fails [OF that] caught_under_watch [OF this] show ?thesis by simp
  qed
  have spawned: "state (poll cfg env ix) = Running st WatchCallbacks \<and>
      tickEffects cfg env ix =
        map (\<lambda>ev. Emit (EventSignal ev)) (po_dispatched out) @
        [StoreSave
           (updateEach (map fst (subscriptions ix)) (toWatermark r) (po_subscriptions out)),
         Emit (ErrorSignal e), SetTimeout ?d]"
    if "state ix = Running st WatchCallbacks" "resolveTarget env st = Inr t"
      "getSubscriptionEvents env t (subscriptions ix) = (pushed, None)"
      "processEvents env t
         (updateEach (map fst (subscriptions ix)) (toFetched t) (subscriptions ix))
         (fold queue_event pushed (eventQueue ix)) = out"
      "po_result out = Inr r" "hasNewSubscriptions r" "hasSubscriptionStore cfg"
      "saveSubscriptionsToStore env
         (updateEach (map fst (subscriptions ix)) (toWatermark r) (po_subscriptions out)) = Some e"
  proof -
    let ?W = "updateEach (map fst (subscriptions ix)) (toWatermark r) (po_subscriptions out)"
    let ?j = "ix \<lparr> subscriptions := ?W, eventQueue := po_eventQueue out,
        effects := effects ix @ map (\<lambda>ev. Emit (EventSignal ev)) (po_dispatched out) @
          [StoreSave ?W] \<rparr>"
    have "state ?j = Running st WatchCallbacks" using that(1) by simp
    from poll_new_save_fails [OF that(1-6) refl that(7,8)] caught_under_watch [OF this]
    have "poll cfg env ix = ?j \<lparr> effects := effects ?j @ [Emit (ErrorSignal e), SetTimeout ?d] \<rparr>"
      by simp
    then show ?thesis
      using that(1) by (simp add: tickEffects_def)
  qed
  have finished: "state (poll cfg env ix) = Running st WatchCallbacks \<and>
      tickEffects cfg env ix =
        map (\<lambda>ev. Emit (EventSignal ev)) (po_dispatched out) @
        [Emit (ProgressSignal (res_indexedToBlock r) t (length (po_eventQueue out))),
         StoreSave
           (updateEach (map fst (subscriptions ix)) (toTarget t)
              (updateEach (map fst (subscriptions ix)) (toWatermark r) (po_subscriptions out))),
         Emit (ErrorSignal e), SetTimeout ?d]"
    if "state ix = Running st WatchCallbacks" "resolveTarget env st = Inr t"
      "getSubscriptionEvents env t (subscriptions ix) = (pushed, None)"
      "processEvents env t
         (updateEach (map fst (subscriptions ix)) (toFetched t) (subscriptions ix))
         (fold queue_event pushed (eventQueue ix)) = out"
      "po_result out = Inr r" "\<not> hasNewSubscriptions r" "hasSubscriptionStore cfg"
      "saveSubscriptionsToStore env
         (updateEach (map fst (subscriptions ix)) (toTarget t)
            (updateEach (map fst (subscriptions ix)) (toWatermark r) (po_subscriptions out))) =
         Some e"
  proof -
    let ?W = "updateEach (map fst (subscriptions ix)) (toTarget t)
        (updateEach (map fst (subscriptions ix)) (toWatermark r) (po_subscriptions out))"
    let ?j = "ix \<lparr> subscriptions := ?W, eventQueue := po_eventQueue out,
        effects := effects ix @ map (\<lambda>ev. Emit (EventSignal ev)) (po_dispatched out) @
          [Emit (ProgressSignal (res_indexedToBlock r) t (length (po_eventQueue out))),
           StoreSave ?W] \<rparr>"
    have "state ?j = Running st WatchCallbacks" using that(1) by simp
    from poll_caught_up_save_fails [OF that(1-6) refl that(7,8)] caught_under_watch [OF this]
    have "poll cfg env ix = ?j \<lparr> effects := effects ?j @ [Emit (ErrorSignal e), SetTimeout ?d] \<rparr>"
      by simp
    then show ?thesis
      using that(1) by (simp add: tickEffects_def)
  qed
  show ?thesis
    using watch_never_throws [of cfg storeAll ix]
      watch_while_running [of ix tb cb cfg storeAll lastBlock target]
      store refused target planner processor spawned finished
    by blast
qed

theorem watch_reports_by_signal_witness:
  "watch exampleConfig (Inr []) watchingIndexer =
     (watchingIndexer
        \<lparr> effects := effects watchingIndexer @
             [Emit (ErrorSignal (Error ''Indexer is already running''))] \<rparr>, None) \<and>
   watch exampleStoreConfig (Inl (Error ''store is down'')) createIndexer =
     (createIndexer \<lparr> effects := [Emit (ErrorSignal (Error ''store is down''))] \<rparr>, None) \<and>
   watch exampleStoreConfig
     (Inr [exampleStored, exampleStored \<lparr> stored_contractName := ''Vault'' \<rparr>]) createIndexer =
     (createIndexer
        \<lparr> subscriptions := [(tokenAddress, exampleSubscription \<lparr> indexedToBlock := 20 \<rparr>)],
          effects := [Emit (ErrorSignal (Error ''Contract Vault not found''))] \<rparr>, None) \<and>
   poll exampleConfig offlineEnv watchingIndexer =
     watchingIndexer
       \<lparr> effects := effects watchingIndexer @
            [Emit (ErrorSignal (Error ''fetch failed'')), SetTimeout 1000] \<rparr>"
proof -
  have w: "state watchingIndexer = Running Latest WatchCallbacks"
    by code_simp
  have i: "state createIndexer = Initial"
    by code_simp
  have h: "hasSubscriptionStore exampleStoreConfig"
    by code_simp
  have l: "loadSubscriptions exampleStoreConfig [exampleStored] (subscriptions createIndexer) =
      ([(tokenAddress, exampleSubscription \<lparr> indexedToBlock := 20 \<rparr>)], None)"
    by code_simp
  have b: "subscribeToContract exampleStoreConfig
      (storedOptions (exampleStored \<lparr> stored_contractName := ''Vault'' \<rparr>))
      [(tokenAddress, exampleSubscription \<lparr> indexedToBlock := 20 \<rparr>)] =
      Inl (Error ''Contract Vault not found'')"
    by code_simp
  have t: "resolveTarget offlineEnv Latest = Inl (Error ''fetch failed'')"
    by code_simp
  have d: "eventPollDelayMs exampleConfig = 1000"
    by code_simp
  have e0: "effects createIndexer = []"
    by code_simp
  from watch_reports_by_signal [where cfg = exampleConfig and storeAll = "Inr []"
      and ix = watchingIndexer and tb = Latest and cb = WatchCallbacks and st = Latest
      and env = offlineEnv and e = "Error ''fetch failed''"] w t d
  have p1: "snd (watch exampleConfig (Inr []) watchingIndexer) = None"
    and p2: "fst (watch exampleConfig (Inr []) watchingIndexer) =
      watchingIndexer \<lparr> effects := effects watchingIndexer @
        [Emit (ErrorSignal (Error ''Indexer is already running''))] \<rparr>"
    and p3: "poll exampleConfig offlineEnv watchingIndexer =
      watchingIndexer \<lparr> effects := effects watchingIndexer @
        [Emit (ErrorSignal (Error ''fetch failed'')), SetTimeout 1000] \<rparr>"
    by simp_all
  from watch_reports_by_signal [where cfg = exampleStoreConfig
      and storeAll = "Inl (Error ''store is down'')" and ix = createIndexer
      and e = "Error ''store is down''"] i h e0
  have q1: "snd (watch exampleStoreConfig (Inl (Error ''store is down'')) createIndexer) = None"
    and q2: "fst (watch exampleStoreConfig (Inl (Error ''store is down'')) createIndexer) =
      createIndexer \<lparr> effects := [Emit (ErrorSignal (Error ''store is down''))] \<rparr>"
    by simp_all
  from watch_reports_by_signal [where cfg = exampleStoreConfig
      and storeAll = "Inr [exampleStored, exampleStored \<lparr> stored_contractName := ''Vault'' \<rparr>]"
      and ix = createIndexer and pre = "[exampleStored]"
      and bad = "exampleStored \<lparr> stored_contractName := ''Vault'' \<rparr>" and rest = "[]"
      and loaded = "[(tokenAddress, exampleSubscription \<lparr> indexedToBlock := 20 \<rparr>)]"
      and e = "Error ''Contract Vault not found''"] i h l b e0
  have r1: "snd (watch exampleStoreConfig
      (Inr [exampleStored, exampleStored \<lparr> stored_contractName := ''Vault'' \<rparr>])
      createIndexer) = None"
    and r2: "fst (watch exampleStoreConfig
      (Inr [exampleStored, exampleStored \<lparr> stored_contractName := ''Vault'' \<rparr>])
      createIndexer) =
      createIndexer
        \<lparr> subscriptions := [(tokenAddress, exampleSubscription \<lparr> indexedToBlock := 20 \<rparr>)],
          effects := [Emit (ErrorSignal (Error ''Contract Vault not found''))] \<rparr>"
    by simp_all
  from p1 p2 p3 q1 q2 r1 r2 show ?thesis
    by (simp add: prod_eq_iff)
qed

section \<open>Properties of readContract\<close>

text \<open>
  C5. For a known contract whose call data encodes: on a cache hit the only call is the
  cache lookup (no RPC call, no cache write) and the result is the decoded cached bytes;
  on a miss the RPC client is called, its result is inserted under the same key and
  decoded; when the RPC call fails, the error is the result and the cache is not
  written, whatever the cache holds.
\<close>

theorem readContract_cache_through:
  assumes "contracts cfg contractArg = Some c"
    and "encodeFunctionData env c functionName args = Inr dat"
    and "key = (chainId env, addr, functionName, blockNum, dat)"
  shows
    "(cache env = Some ch \<and> getContractRead ch key = Inr (Some cachedRead) \<longrightarrow>
        readContract cfg env contractArg functionName addr blockNum args =
          ([CacheGetContractRead key], decodeFunctionResult env c functionName cachedRead)) \<and>
     (cache env = Some ch \<and> getContractRead ch key = Inr None \<and>
      rpcReadContract env functionName dat addr blockNum = Inr result \<and>
      insertContractRead ch key result = None \<longrightarrow>
        readContract cfg env contractArg functionName addr blockNum args =
          ([CacheGetContractRead key, RpcReadContract functionName dat addr blockNum,
            CacheInsertContractRead key result],
           decodeFunctionResult env c functionName result)) \<and>
     (rpcReadContract env functionName dat addr blockNum = Inl e \<longrightarrow>
        (\<forall>k r. CacheInsertContractRead k r \<notin>
                 set (fst (readContract cfg env contractArg functionName addr blockNum args))) \<and>
        (RpcReadContract functionName dat addr blockNum \<in>
           set (fst (readContract cfg env contractArg functionName addr blockNum args)) \<longrightarrow>
         snd (readContract cfg env contractArg functionName addr blockNum args) = Inl e))"
  using assms
  by (auto simp: readContract_def Let_def split: option.splits sum.splits)

theorem readContract_cache_through_witness:
  "readContract exampleConfig exampleReadEnv ''Token'' ''balanceOf'' ''0xabc'' 5 ''0x70'' =
     ([CacheGetContractRead (1, ''0xabc'', ''balanceOf'', 5, ''0x70'')], Inr ''0x01'') \<and>
   readContract exampleConfig exampleReadEnv ''Token'' ''balanceOf'' ''0xabc'' 6 ''0x70'' =
     ([CacheGetContractRead (1, ''0xabc'', ''balanceOf'', 6, ''0x70''),
       RpcReadContract ''balanceOf'' ''0x70'' ''0xabc'' 6,
       CacheInsertContractRead (1, ''0xabc'', ''balanceOf'', 6, ''0x70'') ''0x02''],
      Inr ''0x02'') \<and>
   snd (readContract exampleConfig exampleReadEnv ''Token'' ''balanceOf'' ''0xabc'' 9 ''0x70'') =
     Inl (JsonRpcError None)"
proof -
  have c: "contracts exampleConfig ''Token'' = Some [''Transfer'']"
    by (simp add: exampleConfig_def)
  have enc: "encodeFunctionData exampleReadEnv [''Transfer''] ''balanceOf'' ''0x70'' = Inr ''0x70''"
    by (simp add: exampleReadEnv_def)
  have k: "\<And>b. (1, ''0xabc'', ''balanceOf'', b, ''0x70'') =
      (chainId exampleReadEnv, ''0xabc'', ''balanceOf'', b, ''0x70'')"
    by (simp add: exampleReadEnv_def)
  have called: "RpcReadContract ''balanceOf'' ''0x70'' ''0xabc'' 9 \<in>
      set (fst (readContract exampleConfig exampleReadEnv ''Token'' ''balanceOf'' ''0xabc'' 9 ''0x70''))"
    by (simp add: readContract_def exampleConfig_def exampleReadEnv_def exampleCache_def)
  show ?thesis
    using readContract_cache_through [where cfg = exampleConfig and env = exampleReadEnv
        and contractArg = "''Token''" and c = "[''Transfer'']" and functionName = "''balanceOf''"
        and args = "''0x70''" and dat = "''0x70''" and addr = "''0xabc''" and blockNum = 5
        and key = "(1, ''0xabc'', ''balanceOf'', 5, ''0x70'')"
        and ch = exampleCache and cachedRead = "''0x01''"]
      readContract_cache_through [where cfg = exampleConfig and env = exampleReadEnv
        and contractArg = "''Token''" and c = "[''Transfer'']" and functionName = "''balanceOf''"
        and args = "''0x70''" and dat = "''0x70''" and addr = "''0xabc''" and blockNum = 6
        and key = "(1, ''0xabc'', ''balanceOf'', 6, ''0x70'')"
        and ch = exampleCache and result = "''0x02''"]
      readContract_cache_through [where cfg = exampleConfig and env = exampleReadEnv
        and contractArg = "''Token''" and c = "[''Transfer'']" and functionName = "''balanceOf''"
        and args = "''0x70''" and dat = "''0x70''" and addr = "''0xabc''" and blockNum = 9
        and key = "(1, ''0xabc'', ''balanceOf'', 9, ''0x70'')"
        and e = "JsonRpcError None"]
      c enc called
    by (simp add: exampleReadEnv_def exampleCache_def)
qed

section \<open>Properties of getLogs\<close>

lemma retry_stops:
  "k \<le> n \<Longrightarrow> (\<forall>j<k. \<exists>e. fn (from + j) = Inl e \<and> should e) \<Longrightarrow>
   (k = n \<or> (\<exists>v. fn (from + k) = Inr v) \<or> (\<exists>e. fn (from + k) = Inl e \<and> \<not> should e)) \<Longrightarrow>
   retry fn n should delay from = (schedule delay from k, fn (from + k))"
proof (induction n arbitrary: k "from")
  case 0
  then show ?case by simp
next
  case (Suc n)
  show ?case
  proof (cases k)
    case 0
    with Suc.prems show ?thesis by (auto split: sum.splits)
  next
    case (Suc k')
    from Suc.prems(2) Suc obtain e where e: "fn from = Inl e" "should e" by force
    have "\<forall>j<k'. \<exists>e. fn (Suc from + j) = Inl e \<and> should e"
      using Suc.prems(2) Suc by (metis Suc_less_eq add_Suc_shift)
    moreover have "k' = n \<or> (\<exists>v. fn (Suc from + k') = Inr v) \<or>
        (\<exists>e. fn (Suc from + k') = Inl e \<and> \<not> should e)"
      using Suc.prems(3) Suc by simp
    ultimately have "retry fn n should delay (Suc from) =
        (schedule delay (Suc from) k', fn (Suc from + k'))"
      using Suc.IH [of k' "Suc from"] Suc.prems(1) Suc by simp
    with e Suc show ?thesis by simp
  qed
qed

lemma retry_attempts:
  "length (filter isAttempt (fst (retry fn n should delay from))) \<le> Suc n"
proof (induction n arbitrary: "from")
  case 0
  then show ?case by simp
next
  case (Suc n)
  from Suc [of "Suc from"] show ?case
    by (auto split: sum.splits prod.splits)
qed

lemma retry_waits: "Wait d \<in> set (fst (retry fn n should delay from)) \<Longrightarrow> d = delay"
proof (induction n arbitrary: "from")
  case 0
  then show ?case by simp
next
  case (Suc n)
  from Suc.prems Suc.IH [of "Suc from"] show ?case
    by (auto split: sum.splits prod.splits if_splits)
qed

lemma getLogsAttempt_tooWide:
  "includes_str message ''query returned more than'' \<or>
   includes_str message ''Log response size exceeded'' \<Longrightarrow>
   getLogsAttempt (Inl (JsonRpcError (Some (message, code)))) =
     Inl (JsonRpcRangeTooWideError (JsonRpcError (Some (message, code))))"
  by (simp add: getLogsAttempt_def)

text \<open>
  An error of \<open>rpcCall\<close> that is not a JSON-RPC error with one of the two phrases in
  its message is thrown on as it is, and \<open>shouldRetry\<close> accepts it.
\<close>

lemma getLogsAttempt_retried:
  assumes "response = Inl e"
    and "\<forall>c. e \<noteq> JsonRpcRangeTooWideError c"
    and "\<forall>m c. e = JsonRpcError (Some (m, c)) \<longrightarrow>
           \<not> includes_str m ''query returned more than'' \<and>
           \<not> includes_str m ''Log response size exceeded''"
  shows "getLogsAttempt response = Inl e \<and> shouldRetry e"
proof (cases e)
  case (Error msg)
  with assms(1) show ?thesis by (simp add: getLogsAttempt_def shouldRetry_def)
next
  case (JsonRpcError body)
  with assms(1,3) show ?thesis
    by (cases body) (auto simp: getLogsAttempt_def shouldRetry_def)
next
  case (JsonRpcRangeTooWideError c)
  with assms(2) show ?thesis by simp
qed

text \<open>
  C6. \<open>getLogs\<close> makes at most six requests (the first and five retries) and pauses
  1000 ms before each retry. Let the requests before the \<open>k\<close>-th have failed, none of
  them with a JSON-RPC error whose message contains "query returned more than" or "Log
  response size exceeded": then all of them are retried. When the \<open>k\<close>-th request
  succeeds, its logs are the result. When it fails with a JSON-RPC error whose message
  contains one of the two phrases, the result is a \<open>JsonRpcRangeTooWideError\<close> with
  that error as its cause, and no further request is made. When the sixth request
  fails like the ones before, its error is the result.
\<close>

theorem getLogs_retries_unless_too_wide:
  assumes "k \<le> 5"
    and "\<forall>j<k. \<exists>e. responses j = Inl e \<and> (\<forall>c. e \<noteq> JsonRpcRangeTooWideError c) \<and>
           (\<forall>m c. e = JsonRpcError (Some (m, c)) \<longrightarrow>
              \<not> includes_str m ''query returned more than'' \<and>
              \<not> includes_str m ''Log response size exceeded'')"
  shows
    "length (filter isAttempt (fst (getLogs responses))) \<le> 6 \<and>
     (\<forall>d. Wait d \<in> set (fst (getLogs responses)) \<longrightarrow> d = 1000) \<and>
     (responses k = Inr logs \<longrightarrow> getLogs responses = (schedule 1000 0 k, Inr logs)) \<and>
     (responses k = Inl (JsonRpcError (Some (message, code))) \<and>
      (includes_str message ''query returned more than'' \<or>
       includes_str message ''Log response size exceeded'') \<longrightarrow>
        getLogs responses =
          (schedule 1000 0 k,
           Inl (JsonRpcRangeTooWideError (JsonRpcError (Some (message, code)))))) \<and>
     (k = 5 \<and> responses 5 = Inl err \<and> (\<forall>c. err \<noteq> JsonRpcRangeTooWideError c) \<and>
      (\<forall>m c. err = JsonRpcError (Some (m, c)) \<longrightarrow>
         \<not> includes_str m ''query returned more than'' \<and>
         \<not> includes_str m ''Log response size exceeded'') \<longrightarrow>
        getLogs responses = (schedule 1000 0 5, Inl err))"
proof -
  let ?fn = "\<lambda>k. getLogsAttempt (responses k)"
  have pre: "\<forall>j<k. \<exists>e. ?fn (0 + j) = Inl e \<and> shouldRetry e"
  proof (intro allI impI)
    fix j
    assume "j < k"
    with assms(2) obtain e where e: "responses j = Inl e"
      "\<forall>c. e \<noteq> JsonRpcRangeTooWideError c"
      "\<forall>m c. e = JsonRpcError (Some (m, c)) \<longrightarrow>
         \<not> includes_str m ''query returned more than'' \<and>
         \<not> includes_str m ''Log response size exceeded''"
      by blast
    from getLogsAttempt_retried [OF e]
    show "\<exists>e. ?fn (0 + j) = Inl e \<and> shouldRetry e" by auto
  qed
  have a: "length (filter isAttempt (fst (getLogs responses))) \<le> 6"
    using retry_attempts [of ?fn 5 shouldRetry 1000 0] by (simp add: getLogs_def)
  have b: "\<forall>d. Wait d \<in> set (fst (getLogs responses)) \<longrightarrow> d = 1000"
    using retry_waits [of _ ?fn 5 shouldRetry 1000 0] by (auto simp: getLogs_def)
  have c: "getLogs responses = (schedule 1000 0 k, Inr logs)"
    if r: "responses k = Inr logs"
  proof -
    have f: "?fn (0 + k) = Inr logs"
      using r by (simp add: getLogsAttempt_def)
    then have "k = 5 \<or> (\<exists>v. ?fn (0 + k) = Inr v) \<or> (\<exists>e. ?fn (0 + k) = Inl e \<and> \<not> shouldRetry e)"
      by simp
    from retry_stops [OF assms(1) pre this] f show ?thesis by (simp add: getLogs_def)
  qed
  have d: "getLogs responses =
      (schedule 1000 0 k, Inl (JsonRpcRangeTooWideError (JsonRpcError (Some (message, code)))))"
    if r: "responses k = Inl (JsonRpcError (Some (message, code)))"
      and m: "includes_str message ''query returned more than'' \<or>
        includes_str message ''Log response size exceeded''"
  proof -
    have f: "?fn (0 + k) = Inl (JsonRpcRangeTooWideError (JsonRpcError (Some (message, code))))"
      using r getLogsAttempt_tooWide [OF m] by simp
    then have "k = 5 \<or> (\<exists>v. ?fn (0 + k) = Inr v) \<or> (\<exists>e. ?fn (0 + k) = Inl e \<and> \<not> shouldRetry e)"
      by (simp add: shouldRetry_def)
    from retry_stops [OF assms(1) pre this] f show ?thesis by (simp add: getLogs_def)
  qed
  have e: "getLogs responses = (schedule 1000 0 5, Inl err)"
    if k: "k = 5" and r: "responses 5 = Inl err"
      and t: "\<forall>c. err \<noteq> JsonRpcRangeTooWideError c"
        "\<forall>m c. err = JsonRpcError (Some (m, c)) \<longrightarrow>
           \<not> includes_str m ''query returned more than'' \<and>
           \<not> includes_str m ''Log response size exceeded''"
  proof -
    have f: "?fn (0 + k) = Inl err"
      using k getLogsAttempt_retried [OF r t] by simp
    have "k = 5 \<or> (\<exists>v. ?fn (0 + k) = Inr v) \<or> (\<exists>e. ?fn (0 + k) = Inl e \<and> \<not> shouldRetry e)"
      using k by simp
    from retry_stops [OF assms(1) pre this] f k show ?thesis by (simp add: getLogs_def)
  qed
  from a b c d e show ?thesis by blast
qed

theorem getLogs_retries_unless_too_wide_witness:
  "getLogs refusingProvider =
     ([Attempt 0, Wait 1000, Attempt 1, Wait 1000, Attempt 2],
      Inl (JsonRpcRangeTooWideError
             (JsonRpcError (Some (''query returned more than 10000 results'', - 32005))))) \<and>
   getLogs deadProvider =
     ([Attempt 0, Wait 1000, Attempt 1, Wait 1000, Attempt 2, Wait 1000, Attempt 3, Wait 1000,
       Attempt 4, Wait 1000, Attempt 5],
      Inl (Error ''fetch failed''))"
proof -
  have m: "includes_str ''query returned more than 10000 results'' ''query returned more than''"
    by code_simp
  have n1: "\<not> includes_str ''rate limit exceeded'' ''query returned more than''"
    by code_simp
  have n2: "\<not> includes_str ''rate limit exceeded'' ''Log response size exceeded''"
    by code_simp
  have r: "\<forall>j<2. \<exists>e. refusingProvider j = Inl e \<and> (\<forall>c. e \<noteq> JsonRpcRangeTooWideError c) \<and>
      (\<forall>m c. e = JsonRpcError (Some (m, c)) \<longrightarrow>
         \<not> includes_str m ''query returned more than'' \<and>
         \<not> includes_str m ''Log response size exceeded'')"
  proof (intro allI impI)
    fix j :: nat
    assume "j < 2"
    then have "j = 0 \<or> j = 1" by arith
    then show "\<exists>e. refusingProvider j = Inl e \<and> (\<forall>c. e \<noteq> JsonRpcRangeTooWideError c) \<and>
      (\<forall>m c. e = JsonRpcError (Some (m, c)) \<longrightarrow>
         \<not> includes_str m ''query returned more than'' \<and>
         \<not> includes_str m ''Log response size exceeded'')"
      using n1 n2 by (auto simp: refusingProvider_def)
  qed
  have d: "\<forall>j<5. \<exists>e. deadProvider j = Inl e \<and> (\<forall>c. e \<noteq> JsonRpcRangeTooWideError c) \<and>
      (\<forall>m c. e = JsonRpcError (Some (m, c)) \<longrightarrow>
         \<not> includes_str m ''query returned more than'' \<and>
         \<not> includes_str m ''Log response size exceeded'')"
    by (simp add: deadProvider_def)
  have s2: "schedule w 0 2 = [Attempt 0, Wait w, Attempt 1, Wait w, Attempt 2]" for w
    by (simp add: eval_nat_numeral)
  have s5: "schedule w 0 5 =
      [Attempt 0, Wait w, Attempt 1, Wait w, Attempt 2, Wait w, Attempt 3, Wait w,
       Attempt 4, Wait w, Attempt 5]" for w
    by (simp add: eval_nat_numeral)
  have le: "(2::nat) \<le> 5" by simp
  have a: "getLogs refusingProvider =
      (schedule 1000 0 2,
       Inl (JsonRpcRangeTooWideError
              (JsonRpcError (Some (''query returned more than 10000 results'', - 32005)))))"
    by (rule getLogs_retries_unless_too_wide [OF le r, THEN conjunct2, THEN conjunct2,
          THEN conjunct2, THEN conjunct1, THEN mp])
      (simp add: refusingProvider_def m)
  have b: "getLogs deadProvider = (schedule 1000 0 5, Inl (Error ''fetch failed''))"
    by (rule getLogs_retries_unless_too_wide [OF order_refl d, THEN conjunct2, THEN conjunct2,
          THEN conjunct2, THEN conjunct2, THEN mp])
      (simp add: deadProvider_def)
  show ?thesis
    unfolding a b s2 s5 by simp
qed

section \<open>Cursors and signals of a poll tick\<close>

lemma map_of_updateEach:
  assumes "\<And>s. f (f s) = f s"
  shows "map_of (updateEach ids f subs) k =
     (if k \<in> set ids then map_option f (map_of subs k) else map_of subs k)"
proof (induction ids arbitrary: subs)
  case Nil
  then show ?case by (simp add: updateEach_def)
next
  case (Cons i ids)
  have step: "updateEach (i # ids) f subs = updateEach ids f (updateSubscription subs i f)"
    by (simp add: updateEach_def)
  have entry: "map_of (updateSubscription subs i f) k =
      (if k = i then map_option f (map_of subs k) else map_of subs k)"
    by (simp add: updateSubscription_def map_of_map_entry split: option.splits)
  show ?case
    unfolding step Cons.IH entry
    by (cases "map_of subs k") (auto simp: assms)
qed

lemma toTarget_idem: "toTarget t (toTarget t s) = toTarget t s"
  by (simp add: toTarget_def)

lemma toWatermark_idem: "toWatermark r (toWatermark r s) = toWatermark r s"
  by (simp add: toWatermark_def)

lemma toFetched_idem: "toFetched t (toFetched t s) = toFetched t s"
  by (simp add: toFetched_def)

lemma fetched_before_processing:
  assumes "map_of (updateEach (map fst subs) (toFetched t) subs) k = Some s"
  shows "fetchedToBlock s = t"
proof -
  have "k \<in> set (map fst subs)"
  proof (rule ccontr)
    assume n: "k \<notin> set (map fst subs)"
    then have "map_of subs k = None"
      by (simp add: map_of_eq_None_iff)
    with n assms show False
      by (simp add: map_of_updateEach [where f = "toFetched t", OF toFetched_idem])
  qed
  with assms show ?thesis
    by (auto simp: map_of_updateEach [where f = "toFetched t", OF toFetched_idem] toFetched_def)
qed


text \<open>
  C1, as stated, fails: the subscription to the token ends at block \<open>50\<close>, the target
  is \<open>100\<close>, the chain has no logs; after the tick its cursors are at block \<open>100\<close>,
  past its \<open>toBlock\<close>.
\<close>

theorem poll_passes_toBlock:
  "subscriptions (poll exampleConfig silentEnv boundedIndexer) =
     [(tokenAddress, exampleSubscription
         \<lparr> toBlock := Height 50, indexedToBlock := 100, fetchedToBlock := 100 \<rparr>)] \<and>
   \<not> cursorSafety 100
       (exampleSubscription
          \<lparr> toBlock := Height 50, indexedToBlock := 100, fetchedToBlock := 100 \<rparr>)"
  by code_simp

text \<open>
  C1, amended. Take a poll tick with target block \<open>t\<close> in which nothing fails and
  the event processor reports no new subscriptions. The processor receives every
  subscription with \<open>fetchedToBlock = t\<close>. After the tick the map is the one the
  processor left, with the cursors of every subscription that was in the map when the
  planner returned set first to the returned watermark and then to \<open>(t, 0)\<close>: each of
  them has \<open>indexedToBlock = t\<close> and \<open>indexedToLogIndex = 0\<close>, whatever its
  \<open>toBlock\<close>, and the \<open>fetchedToBlock\<close> and \<open>toBlock\<close> that the processor left.
  So \<open>indexedToBlock \<le> fetchedToBlock \<le> t\<close> holds where the processor has kept
  \<open>fetchedToBlock\<close>; \<open>indexedToBlock \<le> toBlock\<close> is not maintained.
\<close>

theorem poll_advances_to_target:
  assumes "state ix = Running st cb"
    and "resolveTarget env st = Inr t"
    and "getSubscriptionEvents env t (subscriptions ix) = (pushed, None)"
    and "S = updateEach (map fst (subscriptions ix)) (toFetched t) (subscriptions ix)"
    and "processEvents env t S (fold queue_event pushed (eventQueue ix)) = out"
    and "po_result out = Inr r"
    and "\<not> hasNewSubscriptions r"
    and "W = updateEach (map fst (subscriptions ix)) (toTarget t)
               (updateEach (map fst (subscriptions ix)) (toWatermark r) (po_subscriptions out))"
    and "hasSubscriptionStore cfg \<longrightarrow> saveSubscriptionsToStore env W = None"
  shows "subscriptions (poll cfg env ix) = W \<and>
    (\<forall>k s. map_of S k = Some s \<longrightarrow> fetchedToBlock s = t) \<and>
    (\<forall>k s. k \<in> set (map fst (subscriptions ix)) \<and>
           map_of (subscriptions (poll cfg env ix)) k = Some s \<longrightarrow>
       indexedToBlock s = t \<and> indexedToLogIndex s = 0 \<and>
       (\<exists>s0. map_of (po_subscriptions out) k = Some s0 \<and>
             fetchedToBlock s = fetchedToBlock s0 \<and> toBlock s = toBlock s0) \<and>
       ((\<forall>s0. map_of (po_subscriptions out) k = Some s0 \<longrightarrow> fetchedToBlock s0 = t) \<longrightarrow>
          indexedToBlock s \<le> fetchedToBlock s \<and> fetchedToBlock s \<le> t))"
proof -
  let ?ids = "map fst (subscriptions ix)"
  have call: "processEvents env t
      (updateEach ?ids (toFetched t) (subscriptions ix))
      (fold queue_event pushed (eventQueue ix)) = out"
    using assms(4,5) by simp
  from poll_caught_up [OF assms(1,2,3) call assms(6,7,8,9)]
  have subs: "subscriptions (poll cfg env ix) = W" by simp
  have received: "\<forall>k s. map_of S k = Some s \<longrightarrow> fetchedToBlock s = t"
    using fetched_before_processing [of "subscriptions ix" t] assms(4) by blast
  have cursor: "indexedToBlock s = t \<and> indexedToLogIndex s = 0 \<and>
      (\<exists>s0. map_of (po_subscriptions out) k = Some s0 \<and>
            fetchedToBlock s = fetchedToBlock s0 \<and> toBlock s = toBlock s0) \<and>
      ((\<forall>s0. map_of (po_subscriptions out) k = Some s0 \<longrightarrow> fetchedToBlock s0 = t) \<longrightarrow>
         indexedToBlock s \<le> fetchedToBlock s \<and> fetchedToBlock s \<le> t)"
    if k: "k \<in> set ?ids" and m: "map_of (subscriptions (poll cfg env ix)) k = Some s" for k s
  proof -
    from m subs assms(8) k
    have "map_option (toTarget t) (map_option (toWatermark r)
        (map_of (po_subscriptions out) k)) = Some s"
      by (simp add: map_of_updateEach [where f = "toTarget t", OF toTarget_idem]
          map_of_updateEach [where f = "toWatermark r", OF toWatermark_idem])
    then obtain s0 where "map_of (po_subscriptions out) k = Some s0"
      and "s = toTarget t (toWatermark r s0)"
      by auto
    then show ?thesis
      by (simp add: toTarget_def toWatermark_def)
  qed
  from subs received cursor show ?thesis by blast
qed

theorem poll_advances_to_target_witness:
  "subscriptions (poll exampleConfig silentEnv boundedIndexer) =
     [(tokenAddress, exampleSubscription
         \<lparr> toBlock := Height 50, indexedToBlock := 100, fetchedToBlock := 100 \<rparr>)] \<and>
   indexedToBlock (exampleSubscription
     \<lparr> toBlock := Height 50, indexedToBlock := 100, fetchedToBlock := 100 \<rparr>) = 100"
proof -
  let ?S = "updateEach (map fst (subscriptions boundedIndexer)) (toFetched 100)
      (subscriptions boundedIndexer)"
  let ?out = "processEvents silentEnv 100 ?S (fold queue_event [] (eventQueue boundedIndexer))"
  let ?r = "\<lparr> res_indexedToBlock = 100, res_indexedToLogIndex = 0, hasNewSubscriptions = False \<rparr>"
  let ?W = "[(tokenAddress, exampleSubscription
      \<lparr> toBlock := Height 50, indexedToBlock := 100, fetchedToBlock := 100 \<rparr>)]"
  have st: "state boundedIndexer = Running (Height 100) IndexToBlockCallbacks"
    by code_simp
  have t: "resolveTarget silentEnv (Height 100) = Inr 100"
    by code_simp
  have g: "getSubscriptionEvents silentEnv 100 (subscriptions boundedIndexer) = ([], None)"
    by code_simp
  have r: "po_result ?out = Inr ?r"
    by code_simp
  have n: "\<not> hasNewSubscriptions ?r"
    by simp
  have w: "?W = updateEach (map fst (subscriptions boundedIndexer)) (toTarget 100)
      (updateEach (map fst (subscriptions boundedIndexer)) (toWatermark ?r)
         (po_subscriptions ?out))"
    by code_simp
  have sv: "hasSubscriptionStore exampleConfig \<longrightarrow> saveSubscriptionsToStore silentEnv ?W = None"
    by code_simp
  from poll_advances_to_target [OF st t g refl refl r n w sv] show ?thesis
    by simp
qed



text \<open>
  C7, as stated, fails: the handler of the first event subscribes to a second token,
  the indexer runs under \<open>indexToBlock(100)\<close> and the write to the subscription store
  fails. The tick rejects the completion and stops the indexer; it does not set the
  timer with delay \<open>0\<close>.
\<close>

theorem failed_store_write_stops:
  "state (poll exampleStoreConfig fullDiskEnv scenarioIndexer) = Stopped \<and>
   tickEffects exampleStoreConfig fullDiskEnv scenarioIndexer =
     [Emit (EventSignal (transferAt 10 0)),
      StoreSave
        [(tokenAddress, exampleSubscription \<lparr> fetchedToBlock := 100 \<rparr>),
         (secondAddress,
          exampleSubscription \<lparr> id_sub := secondAddress, contractAddress := secondAddress \<rparr>)],
      Reject (Error ''disk full''), ClearTimeout, Emit StoppedSignal,
      OnStop IndexToBlockCallbacks, Resolve]"
  by code_simp

text \<open>
  C7, amended. When the event processor of a tick reports \<open>hasNewSubscriptions\<close>,
  the tick emits no \<open>progress\<close>, and the map is the one the processor left with the
  cursors of the returned watermark: the update to \<open>(targetBlock, 0)\<close> is not made.
  When no store is configured or the write to the store succeeds, the tick's effects
  are the dispatched events, the write and the timer with delay \<open>0\<close>, and the state is
  still \<open>running\<close>, also when the target block is the configured target. When the
  write fails, the error goes to the error callback of the running state: under
  \<open>watch\<close> it is emitted as \<open>error\<close>, the timer is set with the polling interval
  and the state is still \<open>running\<close>; under \<open>indexToBlock\<close> the completion is
  rejected and the indexer stops, without a timer.
\<close>

theorem poll_new_subscriptions:
  assumes "state ix = Running st cb"
    and "resolveTarget env st = Inr t"
    and "getSubscriptionEvents env t (subscriptions ix) = (pushed, None)"
    and "processEvents env t
           (updateEach (map fst (subscriptions ix)) (toFetched t) (subscriptions ix))
           (fold queue_event pushed (eventQueue ix)) = out"
    and "po_result out = Inr r"
    and "hasNewSubscriptions r"
    and "W = updateEach (map fst (subscriptions ix)) (toWatermark r) (po_subscriptions out)"
  shows "subscriptions (poll cfg env ix) = W \<and>
    filter isProgress (tickEffects cfg env ix) = [] \<and>
    ((hasSubscriptionStore cfg \<longrightarrow> saveSubscriptionsToStore env W = None) \<longrightarrow>
       state (poll cfg env ix) = Running st cb \<and>
       tickEffects cfg env ix =
         map (\<lambda>ev. Emit (EventSignal ev)) (po_dispatched out) @
         (if hasSubscriptionStore cfg then [StoreSave W] else []) @ [SetTimeout 0]) \<and>
    (hasSubscriptionStore cfg \<and> saveSubscriptionsToStore env W = Some e \<longrightarrow>
       (cb = WatchCallbacks \<longrightarrow>
          state (poll cfg env ix) = Running st cb \<and>
          tickEffects cfg env ix =
            map (\<lambda>ev. Emit (EventSignal ev)) (po_dispatched out) @
            [StoreSave W, Emit (ErrorSignal e), SetTimeout (eventPollDelayMs cfg)]) \<and>
       (cb = IndexToBlockCallbacks \<longrightarrow>
          state (poll cfg env ix) = Stopped \<and>
          tickEffects cfg env ix =
            map (\<lambda>ev. Emit (EventSignal ev)) (po_dispatched out) @
            [StoreSave W, Reject e, ClearTimeout, Emit StoppedSignal,
             OnStop IndexToBlockCallbacks, Resolve]))"
proof -
  let ?ev = "map (\<lambda>ev. Emit (EventSignal ev)) (po_dispatched out)"
  let ?j = "ix \<lparr> subscriptions := W, eventQueue := po_eventQueue out,
      effects := effects ix @ ?ev @ [StoreSave W] \<rparr>"
  have sj: "state ?j = Running st cb"
    using assms(1) by simp
  have saved: "subscriptions (poll cfg env ix) = W \<and>
      state (poll cfg env ix) = Running st cb \<and>
      tickEffects cfg env ix =
        ?ev @ (if hasSubscriptionStore cfg then [StoreSave W] else []) @ [SetTimeout 0]"
    if "hasSubscriptionStore cfg \<longrightarrow> saveSubscriptionsToStore env W = None"
    using poll_new_saved [OF assms that] assms(1) by (simp add: tickEffects_def)
  have watching: "subscriptions (poll cfg env ix) = W \<and>
      state (poll cfg env ix) = Running st cb \<and>
      tickEffects cfg env ix =
        ?ev @ [StoreSave W, Emit (ErrorSignal e), SetTimeout (eventPollDelayMs cfg)]"
    if "hasSubscriptionStore cfg" "saveSubscriptionsToStore env W = Some e"
      "cb = WatchCallbacks" for e
    using poll_new_save_fails [OF assms that(1,2)] caught_under_watch [of ?j st] sj that(3)
    by (simp add: tickEffects_def)
  have indexing: "subscriptions (poll cfg env ix) = W \<and>
      state (poll cfg env ix) = Stopped \<and>
      tickEffects cfg env ix =
        ?ev @ [StoreSave W, Reject e, ClearTimeout, Emit StoppedSignal,
               OnStop IndexToBlockCallbacks, Resolve]"
    if "hasSubscriptionStore cfg" "saveSubscriptionsToStore env W = Some e"
      "cb = IndexToBlockCallbacks" for e
    using poll_new_save_fails [OF assms that(1,2)] caught_under_indexToBlock [of ?j st] sj that(3)
    by (simp add: tickEffects_def)
  have subs: "subscriptions (poll cfg env ix) = W"
    and quiet: "filter isProgress (tickEffects cfg env ix) = []"
  proof -
    have "subscriptions (poll cfg env ix) = W \<and>
        filter isProgress (tickEffects cfg env ix) = []"
    proof (cases "hasSubscriptionStore cfg \<longrightarrow> saveSubscriptionsToStore env W = None")
      case True
      from saved [OF True] show ?thesis by (simp add: no_progress_in_events)
    next
      case False
      then obtain e' where 2: "hasSubscriptionStore cfg" "saveSubscriptionsToStore env W = Some e'"
        by auto
      show ?thesis
      proof (cases cb)
        case WatchCallbacks
        from watching [OF 2 WatchCallbacks] show ?thesis by (simp add: no_progress_in_events)
      next
        case IndexToBlockCallbacks
        from indexing [OF 2 IndexToBlockCallbacks] show ?thesis
          by (simp add: no_progress_in_events)
      qed
    qed
    then show "subscriptions (poll cfg env ix) = W"
      and "filter isProgress (tickEffects cfg env ix) = []"
      by simp_all
  qed
  from subs quiet saved watching indexing show ?thesis by blast
qed

theorem poll_new_subscriptions_witness:
  "state (poll exampleStoreConfig spawningEnv scenarioIndexer) =
     Running (Height 100) IndexToBlockCallbacks \<and>
   tickEffects exampleStoreConfig spawningEnv scenarioIndexer =
     [Emit (EventSignal (transferAt 10 0)),
      StoreSave
        [(tokenAddress, exampleSubscription \<lparr> fetchedToBlock := 100 \<rparr>),
         (secondAddress,
          exampleSubscription \<lparr> id_sub := secondAddress, contractAddress := secondAddress \<rparr>)],
      SetTimeout 0] \<and>
   state (poll exampleStoreConfig fullDiskEnv scenarioIndexer) = Stopped"
proof -
  let ?r = "\<lparr> res_indexedToBlock = - 1, res_indexedToLogIndex = 0, hasNewSubscriptions = True \<rparr>"
  let ?W = "[(tokenAddress, exampleSubscription \<lparr> fetchedToBlock := 100 \<rparr>),
      (secondAddress,
       exampleSubscription \<lparr> id_sub := secondAddress, contractAddress := secondAddress \<rparr>)]"
  let ?out = "processEvents spawningEnv 100
      (updateEach (map fst (subscriptions scenarioIndexer)) (toFetched 100)
         (subscriptions scenarioIndexer))
      (fold queue_event [transferAt 10 0, transferAt 20 0, transferAt 20 1]
         (eventQueue scenarioIndexer))"
  let ?out' = "processEvents fullDiskEnv 100
      (updateEach (map fst (subscriptions scenarioIndexer)) (toFetched 100)
         (subscriptions scenarioIndexer))
      (fold queue_event [transferAt 10 0, transferAt 20 0, transferAt 20 1]
         (eventQueue scenarioIndexer))"
  have st: "state scenarioIndexer = Running (Height 100) IndexToBlockCallbacks"
    by code_simp
  have t: "resolveTarget spawningEnv (Height 100) = Inr 100"
    by code_simp
  have g: "getSubscriptionEvents spawningEnv 100 (subscriptions scenarioIndexer) =
      ([transferAt 10 0, transferAt 20 0, transferAt 20 1], None)"
    by code_simp
  have r: "po_result ?out = Inr ?r"
    by code_simp
  have h: "hasNewSubscriptions ?r"
    by simp
  have w: "?W = updateEach (map fst (subscriptions scenarioIndexer)) (toWatermark ?r)
      (po_subscriptions ?out)"
    by code_simp
  have sv: "hasSubscriptionStore exampleStoreConfig \<longrightarrow>
      saveSubscriptionsToStore spawningEnv ?W = None"
    by code_simp
  have d: "po_dispatched ?out = [transferAt 10 0]"
    by code_simp
  have c: "hasSubscriptionStore exampleStoreConfig"
    by code_simp
  have t': "resolveTarget fullDiskEnv (Height 100) = Inr 100"
    by code_simp
  have g': "getSubscriptionEvents fullDiskEnv 100 (subscriptions scenarioIndexer) =
      ([transferAt 10 0, transferAt 20 0, transferAt 20 1], None)"
    by code_simp
  have r': "po_result ?out' = Inr ?r"
    by code_simp
  have w': "?W = updateEach (map fst (subscriptions scenarioIndexer)) (toWatermark ?r)
      (po_subscriptions ?out')"
    by code_simp
  have f: "saveSubscriptionsToStore fullDiskEnv ?W = Some (Error ''disk full'')"
    by code_simp
  from poll_new_subscriptions [OF st t g refl r h w, where cfg = exampleStoreConfig] sv d c
  have a: "state (poll exampleStoreConfig spawningEnv scenarioIndexer) =
      Running (Height 100) IndexToBlockCallbacks"
    and b: "tickEffects exampleStoreConfig spawningEnv scenarioIndexer =
      [Emit (EventSignal (transferAt 10 0)), StoreSave ?W, SetTimeout 0]"
    by simp_all
  from poll_new_subscriptions [OF st t' g' refl r' h w', where cfg = exampleStoreConfig
      and e = "Error ''disk full''"] c f
  have "state (poll exampleStoreConfig fullDiskEnv scenarioIndexer) = Stopped"
    by simp
  with a b show ?thesis by simp
qed


end
